theory Spec2Isabelle
  imports Complex_Main "HOL-Library.AList"
begin

section \<open>Payroll accrual calculator (components/SalaryCalculator.tsx, reportData)\<close>

text \<open>
  JavaScript numbers are idealised as exact rationals: no rounding, no NaN, no infinities.
  Optional fields (\<^verbatim>\<open>advances\<close>, \<^verbatim>\<open>amount\<close>) are options, \<open>None\<close> standing
  for \<^verbatim>\<open>undefined\<close> (and for \<^verbatim>\<open>null\<close>, which every test below treats alike).
  The two calls into the platform's \<^verbatim>\<open>Date\<close> object are inputs of the model:
  \<open>endTime\<close> is \<^verbatim>\<open>new Date(year, month + 1, 0).getTime()\<close>, \<open>getTime s\<close> is
  \<^verbatim>\<open>new Date(s).getTime()\<close> (both in milliseconds), and \<open>daysInMonth\<close> is
  \<^verbatim>\<open>new Date(year, month + 1, 0).getDate()\<close>.
\<close>

datatype AttendanceStatus = Present | Absent | HalfDay | PaidLeave | SickLeave | Holiday

record Employee =
  emp_id :: string
  emp_status :: string
  employeeType :: string
  joiningDate :: string
  basicSalary :: rat
  allowance :: rat
  otherExps :: rat
  advances :: "rat option"

record AttendanceRecord =
  att_employeeId :: string
  att_date :: string
  att_status :: AttendanceStatus

record OvertimeRecord =
  ot_employeeId :: string
  ot_date :: string
  ot_hours :: rat

record OvertimePressRecord =
  otp_employeeId :: string
  otp_date :: string
  otp_hours :: rat
  otp_amount :: "rat option"

record PayrollState =
  employees :: "Employee list"
  attendanceRecords :: "AttendanceRecord list"
  overtimeRecords :: "OvertimeRecord list"
  overtimePressRecords :: "OvertimePressRecord list"

record ReportRow =
  row_employee :: Employee
  payableDays :: rat
  deductions :: rat
  otAmount :: rat
  otHours :: rat
  row_advances :: rat
  netPayableSalary :: rat
  gratuityAmount :: rat
  leaveSalaryAccrued :: rat

text \<open>\<^verbatim>\<open>String(n)\<close> for a non-negative integer, and \<^verbatim>\<open>padStart(2, '0')\<close>.\<close>

definition digitChar :: "nat \<Rightarrow> char" where
  "digitChar d =
     (if d = 0 then CHR ''0'' else if d = 1 then CHR ''1'' else if d = 2 then CHR ''2''
      else if d = 3 then CHR ''3'' else if d = 4 then CHR ''4'' else if d = 5 then CHR ''5''
      else if d = 6 then CHR ''6'' else if d = 7 then CHR ''7'' else if d = 8 then CHR ''8''
      else CHR ''9'')"

fun showNat :: "nat \<Rightarrow> string" where
  "showNat n = (if n < 10 then [digitChar n] else showNat (n div 10) @ [digitChar (n mod 10)])"

declare showNat.simps [simp del]

definition padStart2 :: "string \<Rightarrow> string" where
  "padStart2 s = replicate (2 - length s) (CHR ''0'') @ s"

text \<open>\<^verbatim>\<open>`${year}-${String(month + 1).padStart(2, '0')}`\<close>; \<open>month\<close> is zero-based.\<close>

definition monthStr :: "nat \<Rightarrow> nat \<Rightarrow> string" where
  "monthStr year month = showNat year @ ''-'' @ padStart2 (showNat (month + 1))"

definition startsWith :: "string \<Rightarrow> string \<Rightarrow> bool" where
  "startsWith s p = (take (length p) s = p)"

text \<open>
  \<^verbatim>\<open>Math.max(0, (endDate.getTime() - joinDate.getTime()) / (1000 * 60 * 60 * 24 * 365.25))\<close>
\<close>

definition yearsOfService :: "int \<Rightarrow> int \<Rightarrow> rat" where
  "yearsOfService endTime joinTime =
     max 0 (of_int (endTime - joinTime) / (1000 * 60 * 60 * 24 * 365.25))"

text \<open>Lines 51-60: the gratuity rule.\<close>

definition gratuityAccrued :: "Employee \<Rightarrow> rat \<Rightarrow> rat" where
  "gratuityAccrued employee yrs =
     (if employeeType employee = ''Labour'' then yrs * 600
      else (let dailyWage = basicSalary employee / 30 in
            if yrs \<ge> 1
            then (if yrs \<le> 5 then dailyWage * 21 * yrs else dailyWage * 30 * yrs)
            else 0))"

text \<open>Line 86-92: the reducer callback of the press overtime sum.\<close>

definition pressOtStep :: "rat \<Rightarrow> OvertimePressRecord \<Rightarrow> rat" where
  "pressOtStep acc r =
     (case otp_amount r of
        Some a \<Rightarrow> if a > 0 then acc + a else acc + otp_hours r * 7
      | None \<Rightarrow> acc + otp_hours r * 7)"

text \<open>\<^verbatim>\<open>employee.advances || 0\<close>\<close>

definition advancesOrZero :: "Employee \<Rightarrow> rat" where
  "advancesOrZero employee = (case advances employee of Some a \<Rightarrow> a | None \<Rightarrow> 0)"

text \<open>Lines 45-107: the row of one employee.\<close>

definition reportRow ::
  "PayrollState \<Rightarrow> nat \<Rightarrow> nat \<Rightarrow> nat \<Rightarrow> int \<Rightarrow> (string \<Rightarrow> int) \<Rightarrow> Employee \<Rightarrow> ReportRow" where
  "reportRow state year month daysInMonth endTime getTime employee =
     (let monthS = monthStr year month;
          yrs = yearsOfService endTime (getTime (joiningDate employee));
          gratuity = gratuityAccrued employee yrs;
          leaveSalary = yrs * 600;
          attendanceForMonth = filter (\<lambda>r. att_employeeId r = emp_id employee \<and>
                                           startsWith (att_date r) monthS) (attendanceRecords state);
          absentDays = length (filter (\<lambda>r. att_status r = Absent) attendanceForMonth);
          halfDays = length (filter (\<lambda>r. att_status r = HalfDay) attendanceForMonth);
          unpaidDays = of_nat absentDays + of_nat halfDays * 0.5;
          dailyRate = basicSalary employee / 30;
          deduct = unpaidDays * dailyRate;
          otRecords = filter (\<lambda>r. ot_employeeId r = emp_id employee \<and>
                                  startsWith (ot_date r) monthS) (overtimeRecords state);
          totalOtHours = foldl (\<lambda>acc r. acc + ot_hours r) 0 otRecords;
          hourlyOtAmount = totalOtHours * 7;
          otPressRecords = filter (\<lambda>r. otp_employeeId r = emp_id employee \<and>
                                       startsWith (otp_date r) monthS) (overtimePressRecords state);
          pressOtAmount = foldl pressOtStep 0 otPressRecords;
          netSalary = (basicSalary employee + allowance employee + otherExps employee
                         + hourlyOtAmount + pressOtAmount) - deduct - advancesOrZero employee
      in \<lparr> row_employee = employee,
           payableDays = of_nat daysInMonth - unpaidDays,
           deductions = deduct,
           otAmount = hourlyOtAmount + pressOtAmount,
           otHours = totalOtHours + foldl (\<lambda>s r. s + otp_hours r) 0 otPressRecords,
           row_advances = advancesOrZero employee,
           netPayableSalary = netSalary,
           gratuityAmount = gratuity,
           leaveSalaryAccrued = leaveSalary \<rparr>)"

text \<open>
  Lines 36-108: the active employees, optionally narrowed to one id (the empty string is
  falsy and selects all), each mapped to its row.
\<close>

definition reportData ::
  "PayrollState \<Rightarrow> string \<Rightarrow> nat \<Rightarrow> nat \<Rightarrow> nat \<Rightarrow> int \<Rightarrow> (string \<Rightarrow> int) \<Rightarrow> ReportRow list" where
  "reportData state filterEmployeeId year month daysInMonth endTime getTime =
     (let employeesToProcess = filter (\<lambda>emp. emp_status emp = ''Active'') (employees state);
          employeesToProcess' = (if filterEmployeeId \<noteq> []
                                 then filter (\<lambda>emp. emp_id emp = filterEmployeeId) employeesToProcess
                                 else employeesToProcess)
      in map (reportRow state year month daysInMonth endTime getTime) employeesToProcess')"

text \<open>
  The three filters of a row select the records of one employee whose date string starts
  with the month's prefix.
\<close>

definition inMonth :: "Employee \<Rightarrow> nat \<Rightarrow> nat \<Rightarrow> string \<Rightarrow> string \<Rightarrow> bool" where
  "inMonth employee year month rid rdate =
     (rid = emp_id employee \<and> startsWith rdate (monthStr year month))"

text \<open>
  The month's prefix written out: the four decimal digits of the year, a hyphen and the
  two decimal digits of the month's number, January being 01; \<open>spec_digit n\<close> is the
  last decimal digit of \<open>n\<close>. It is compared with \<open>monthStr\<close> below.
\<close>

definition spec_digit :: "nat \<Rightarrow> char" where
  "spec_digit n = ''0123456789'' ! (n mod 10)"

definition spec_monthPrefix :: "nat \<Rightarrow> nat \<Rightarrow> string" where
  "spec_monthPrefix year month =
     [spec_digit (year div 1000), spec_digit (year div 100), spec_digit (year div 10),
      spec_digit year, CHR ''-'', spec_digit ((month + 1) div 10), spec_digit (month + 1)]"

text \<open>
  The pay of one press overtime record as the specification words it: the stored pooled
  amount if one is present, otherwise hours times the fixed rate. It is compared with
  \<open>pressOtStep\<close> below.
\<close>

definition spec_pressPay :: "OvertimePressRecord \<Rightarrow> rat" where
  "spec_pressPay r = (case otp_amount r of Some a \<Rightarrow> a | None \<Rightarrow> otp_hours r * 7)"

text \<open>The pay of one press overtime record as \<open>pressOtStep\<close> adds it.\<close>

definition pressPay :: "OvertimePressRecord \<Rightarrow> rat" where
  "pressPay r = pressOtStep 0 r"


section \<open>Values of the state tree (App.tsx)\<close>

text \<open>
  The reducer and the serializer work on plain JSON-like data whose shape TypeScript does
  not check at run time (the restore payload comes from the remote store as
  \<^verbatim>\<open>any\<close>), so the embedding is untyped as well: a value is one of JavaScript's
  primitives, an array, or an object given by its own enumerable properties in insertion
  order. Numbers are exact rationals. A state of the reducer is an object.
\<close>

datatype jsval =
    Undefined
  | Null
  | Bool bool
  | Num rat
  | Str string
  | Arr "jsval list"
  | Obj "(string \<times> jsval) list"

type_synonym obj = "(string \<times> jsval) list"

text \<open>
  \<open>TypeError\<close> is the exception JavaScript throws on reading a property of
  \<^verbatim>\<open>undefined\<close> or \<^verbatim>\<open>null\<close>, on calling a method the receiver does not
  have, and on spreading a value that is not iterable. \<open>NotModelled\<close> marks the
  behaviour the embedding does not follow: JavaScript does not throw there but coerces
  (string concatenation by \<^verbatim>\<open>+\<close>, a property key made from a non-string, the index
  properties of a spread array or string, a dictionary key found on
  \<^verbatim>\<open>Object.prototype\<close>).
\<close>

datatype error = TypeError | NotModelled

definition bindE :: "error + 'a \<Rightarrow> ('a \<Rightarrow> error + 'b) \<Rightarrow> error + 'b" where
  "bindE m f = (case m of Inl e \<Rightarrow> Inl e | Inr x \<Rightarrow> f x)"

fun truthy :: "jsval \<Rightarrow> bool" where
  "truthy Undefined = False"
| "truthy Null = False"
| "truthy (Bool b) = b"
| "truthy (Num n) = (n \<noteq> 0)"
| "truthy (Str s) = (s \<noteq> [])"
| "truthy (Arr xs) = True"
| "truthy (Obj ps) = True"

text \<open>\<^verbatim>\<open>a || b\<close> and \<^verbatim>\<open>a ?? b\<close>\<close>

definition js_or :: "jsval \<Rightarrow> jsval \<Rightarrow> jsval" where
  "js_or a b = (if truthy a then a else b)"

definition nullish :: "jsval \<Rightarrow> bool" where
  "nullish a = (a = Undefined \<or> a = Null)"

definition js_coalesce :: "jsval \<Rightarrow> jsval \<Rightarrow> jsval" where
  "js_coalesce a b = (if nullish a then b else a)"

text \<open>
  \<^verbatim>\<open>a === b\<close> on primitives. Two arrays or objects are equal only as references,
  which the embedding does not have: it takes them as different.
\<close>

fun strict_eq :: "jsval \<Rightarrow> jsval \<Rightarrow> bool" where
  "strict_eq Undefined Undefined = True"
| "strict_eq Null Null = True"
| "strict_eq (Bool a) (Bool b) = (a = b)"
| "strict_eq (Num a) (Num b) = (a = b)"
| "strict_eq (Str a) (Str b) = (a = b)"
| "strict_eq a b = False"

text \<open>\<^verbatim>\<open>o[k]\<close> on an object: a missing property reads as \<^verbatim>\<open>undefined\<close>.\<close>

definition lookup :: "obj \<Rightarrow> string \<Rightarrow> jsval" where
  "lookup ps k = (case map_of ps k of Some v \<Rightarrow> v | None \<Rightarrow> Undefined)"

text \<open>
  \<^verbatim>\<open>v.k\<close> on any value, for the property names the code reads (none of them is
  \<^verbatim>\<open>length\<close> or an index, so a primitive, an array and a string have none of them).
\<close>

fun getProp :: "jsval \<Rightarrow> string \<Rightarrow> error + jsval" where
  "getProp Undefined k = Inl TypeError"
| "getProp Null k = Inl TypeError"
| "getProp (Obj ps) k = Inr (lookup ps k)"
| "getProp v k = Inr Undefined"

text \<open>The receiver of \<^verbatim>\<open>map\<close>, \<^verbatim>\<open>filter\<close>, \<^verbatim>\<open>some\<close>, \<^verbatim>\<open>forEach\<close>, \<^verbatim>\<open>reduce\<close>.\<close>

fun arrayMethod :: "jsval \<Rightarrow> error + jsval list" where
  "arrayMethod (Arr xs) = Inr xs"
| "arrayMethod v = Inl TypeError"

text \<open>\<^verbatim>\<open>[...v]\<close>: arrays and strings are iterable.\<close>

fun spreadIter :: "jsval \<Rightarrow> error + jsval list" where
  "spreadIter (Arr xs) = Inr xs"
| "spreadIter (Str s) = Inr (map (\<lambda>c. Str [c]) s)"
| "spreadIter v = Inl TypeError"

text \<open>\<^verbatim>\<open>{...v}\<close>: the own properties of an object; a primitive has none.\<close>

fun spreadObj :: "jsval \<Rightarrow> error + obj" where
  "spreadObj (Obj ps) = Inr ps"
| "spreadObj (Arr xs) = Inl NotModelled"
| "spreadObj (Str s) = Inl NotModelled"
| "spreadObj v = Inr []"

text \<open>\<^verbatim>\<open>{...a, ...b}\<close> on property lists: later properties overwrite in place or append.\<close>

definition objAssign :: "obj \<Rightarrow> obj \<Rightarrow> obj" where
  "objAssign a b = foldl (\<lambda>acc kv. AList.update (fst kv) (snd kv) acc) a b"

text \<open>A value used as a property key.\<close>

fun toKey :: "jsval \<Rightarrow> error + string" where
  "toKey (Str s) = Inr s"
| "toKey v = Inl NotModelled"

text \<open>\<^verbatim>\<open>a + b\<close> on numbers.\<close>

fun js_add :: "jsval \<Rightarrow> jsval \<Rightarrow> error + jsval" where
  "js_add (Num a) (Num b) = Inr (Num (a + b))"
| "js_add a b = Inl NotModelled"

text \<open>\<^verbatim>\<open>v.startsWith(p)\<close> and \<^verbatim>\<open>v.includes(x)\<close>\<close>

fun startsWithM :: "jsval \<Rightarrow> string \<Rightarrow> error + bool" where
  "startsWithM (Str s) p = Inr (startsWith s p)"
| "startsWithM v p = Inl TypeError"

fun includesM :: "jsval \<Rightarrow> jsval \<Rightarrow> error + bool" where
  "includesM (Arr xs) x = Inr (list_ex (\<lambda>y. strict_eq y x) xs)"
| "includesM (Str s) x = Inl NotModelled"
| "includesM v x = Inl TypeError"

text \<open>The array methods with a callback that may throw, in evaluation order.\<close>

fun mapM :: "('a \<Rightarrow> error + 'b) \<Rightarrow> 'a list \<Rightarrow> error + 'b list" where
  "mapM f [] = Inr []"
| "mapM f (x # xs) = bindE (f x) (\<lambda>y. bindE (mapM f xs) (\<lambda>ys. Inr (y # ys)))"

fun filterM :: "('a \<Rightarrow> error + bool) \<Rightarrow> 'a list \<Rightarrow> error + 'a list" where
  "filterM p [] = Inr []"
| "filterM p (x # xs) =
     bindE (p x) (\<lambda>b. bindE (filterM p xs) (\<lambda>ys. Inr (if b then x # ys else ys)))"

fun someM :: "('a \<Rightarrow> error + bool) \<Rightarrow> 'a list \<Rightarrow> error + bool" where
  "someM p [] = Inr False"
| "someM p (x # xs) = bindE (p x) (\<lambda>b. if b then Inr True else someM p xs)"

fun foldM :: "('s \<Rightarrow> 'a \<Rightarrow> error + 's) \<Rightarrow> 's \<Rightarrow> 'a list \<Rightarrow> error + 's" where
  "foldM f s [] = Inr s"
| "foldM f s (x # xs) = bindE (f s x) (\<lambda>s'. foldM f s' xs)"

text \<open>
  \<^verbatim>\<open>xs.sort(cmp)\<close> as a stable insertion sort: an element goes before the first
  one it is strictly less than. (Which pairs an engine compares is its own choice; for a
  comparator that is a total preorder every stable sort gives this result.)
\<close>

fun insertBy :: "('a \<Rightarrow> 'a \<Rightarrow> error + int) \<Rightarrow> 'a \<Rightarrow> 'a list \<Rightarrow> error + 'a list" where
  "insertBy cmp x [] = Inr [x]"
| "insertBy cmp x (y # ys) =
     bindE (cmp x y) (\<lambda>c. if c < 0 then Inr (x # y # ys)
                          else bindE (insertBy cmp x ys) (\<lambda>zs. Inr (y # zs)))"

definition sortBy :: "('a \<Rightarrow> 'a \<Rightarrow> error + int) \<Rightarrow> 'a list \<Rightarrow> error + 'a list" where
  "sortBy cmp xs = foldM (\<lambda>acc x. insertBy cmp x acc) [] xs"

text \<open>
  What the sources do not contain: the run-time values of the enum
  \<^verbatim>\<open>JournalEntryType\<close> (declared in types.ts) and the platform's locale-dependent
  \<^verbatim>\<open>String.prototype.localeCompare\<close>. Both are parameters.
\<close>

datatype JournalEntryType = Receipt | Payment | Expense | Journal

record env =
  enumValue :: "JournalEntryType \<Rightarrow> jsval"
  localeCompare :: "string \<Rightarrow> string \<Rightarrow> int"

section \<open>The state reducer (App.tsx)\<close>

subsection \<open>Serialization: \<^verbatim>\<open>convertUndefinedToNull\<close> (lines 598-619)\<close>

fun convertUndefinedToNull :: "jsval \<Rightarrow> jsval" where
  "convertUndefinedToNull (Arr xs) = Arr (map convertUndefinedToNull xs)"
| "convertUndefinedToNull (Obj ps) =
     Obj (map (\<lambda>kv. (fst kv, if snd kv = Undefined then Null
                              else convertUndefinedToNull (snd kv))) ps)"
| "convertUndefinedToNull v = v"

subsection \<open>\<^verbatim>\<open>getInitialState\<close> and \<^verbatim>\<open>processState\<close> (lines 621-739)\<close>

definition getInitialState :: obj where
  "getInitialState =
     [(''customers'', Arr []),
      (''suppliers'', Arr []),
      (''vendors'', Arr []),
      (''subSuppliers'', Arr []),
      (''employees'', Arr []),
      (''banks'', Arr []),
      (''cashAccounts'', Arr []),
      (''originalTypes'', Arr []),
      (''originalProducts'', Arr []),
      (''divisions'', Arr []),
      (''subDivisions'', Arr []),
      (''warehouses'', Arr []),
      (''sections'', Arr []),
      (''categories'', Arr []),
      (''items'', Arr []),
      (''logos'', Arr []),
      (''assetTypes'', Arr []),
      (''commissionAgents'', Arr []),
      (''freightForwarders'', Arr []),
      (''clearingAgents'', Arr []),
      (''loanAccounts'', Arr []),
      (''capitalAccounts'', Arr []),
      (''investmentAccounts'', Arr []),
      (''expenseAccounts'', Arr [Obj [(''id'', Str ''EXP-012''), (''name'', Str ''Depreciation Expense'')]]),
      (''inventoryAccounts'', Arr [Obj [(''id'', Str ''INV-FG-001''), (''name'', Str ''Finished Goods Inventory'')]]),
      (''packingMaterialInventoryAccounts'', Arr [Obj [(''id'', Str ''INV-PM-001''), (''name'', Str ''Packing Material Inventory'')]]),
      (''fixedAssetAccounts'', Arr [Obj [(''id'', Str ''FA-001''), (''name'', Str ''Fixed Assets at Cost'')]]),
      (''accumulatedDepreciationAccounts'', Arr [Obj [(''id'', Str ''AD-001''), (''name'', Str ''Accumulated Depreciation'')]]),
      (''receivableAccounts'', Arr [Obj [(''id'', Str ''AR-001''), (''name'', Str ''Accounts Receivable'')]]),
      (''revenueAccounts'', Arr [Obj [(''id'', Str ''REV-001''), (''name'', Str ''Sales Revenue'')]]),
      (''payableAccounts'', Arr [Obj [(''id'', Str ''AP-001''), (''name'', Str ''Accounts Payable'')], Obj [(''id'', Str ''AP-002''), (''name'', Str ''Customs Charges Payable'')]]),
      (''attendanceRecords'', Arr []),
      (''salaryPayments'', Arr []),
      (''hrTasks'', Arr []),
      (''hrEnquiries'', Arr []),
      (''vehicles'', Arr []),
      (''fixedAssets'', Arr []),
      (''depreciationEntries'', Arr []),
      (''originalOpenings'', Arr []),
      (''originalPurchases'', Arr []),
      (''productions'', Arr []),
      (''salesInvoices'', Arr []),
      (''ongoingOrders'', Arr []),
      (''finishedGoodsPurchases'', Arr []),
      (''packingMaterialItems'', Arr []),
      (''packingMaterialPurchases'', Arr []),
      (''logisticsEntries'', Arr []),
      (''guaranteeCheques'', Arr []),
      (''customsDocuments'', Arr []),
      (''favoriteCombinations'', Arr []),
      (''journalEntries'', Arr []),
      (''testEntries'', Arr []),
      (''nextInvoiceNumber'', Num 1),
      (''nextOngoingOrderNumber'', Num 1),
      (''nextFinishedGoodsPurchaseNumber'', Num 1),
      (''nextPackingMaterialPurchaseNumber'', Num 1),
      (''nextLogisticsSNo'', Num 1),
      (''nextHRTaskId'', Num 1),
      (''nextHREnquiryId'', Num 1),
      (''nextGuaranteeChequeSNo'', Num 1),
      (''nextReceiptVoucherNumber'', Num 1),
      (''nextPaymentVoucherNumber'', Num 1),
      (''nextExpenseVoucherNumber'', Num 1),
      (''nextJournalVoucherNumber'', Num 1),
      (''nextTestEntryNumber'', Num 1),
      (''plannerData'', Obj []),
      (''plannerLastWeeklyReset'', Str []),
      (''plannerLastMonthlyReset'', Str []),
      (''plannerCustomerIds'', Arr []),
      (''plannerSupplierIds'', Arr []),
      (''plannerExpenseAccountIds'', Arr [])]"

text \<open>
  \<^verbatim>\<open>productionsByItem\<close> is a plain object used as a dictionary. A key naming a member
  of \<^verbatim>\<open>Object.prototype\<close> would read that member; the embedding does not follow it.
\<close>

definition objectPrototypeKeys :: "string list" where
  "objectPrototypeKeys =
     [''constructor'', ''__proto__'', ''hasOwnProperty'', ''isPrototypeOf'',
      ''propertyIsEnumerable'', ''toLocaleString'', ''toString'', ''valueOf'',
      ''__defineGetter__'', ''__defineSetter__'', ''__lookupGetter__'',
      ''__lookupSetter__'']"

fun dictKey :: "jsval \<Rightarrow> error + string" where
  "dictKey (Str s) = (if s \<in> set objectPrototypeKeys then Inl NotModelled else Inr s)"
| "dictKey v = Inl NotModelled"

text \<open>
  The callback of \<^verbatim>\<open>state.productions.forEach\<close>:
  \<^verbatim>\<open>productionsByItem[p.itemId] = (productionsByItem[p.itemId] || 0) + p.quantityProduced\<close>
\<close>

definition addProduction :: "obj \<Rightarrow> jsval \<Rightarrow> error + obj" where
  "addProduction productionsByItem p =
     bindE (getProp p ''itemId'') (\<lambda>itemId.
     bindE (dictKey itemId) (\<lambda>k.
     bindE (getProp p ''quantityProduced'') (\<lambda>q.
     bindE (js_add (js_or (lookup productionsByItem k) (Num 0)) q) (\<lambda>v.
     Inr (AList.update k v productionsByItem)))))"

text \<open>
  The callback of \<^verbatim>\<open>state.items.map\<close>:
  \<^verbatim>\<open>{...item, nextBaleNumber: (item.openingStock || 0) + totalProduced + 1}\<close> with
  \<^verbatim>\<open>totalProduced = productionsByItem[item.id] || 0\<close>.
\<close>

definition withNextBaleNumber :: "obj \<Rightarrow> jsval \<Rightarrow> error + jsval" where
  "withNextBaleNumber productionsByItem item =
     bindE (getProp item ''id'') (\<lambda>itemId.
     bindE (dictKey itemId) (\<lambda>k.
     bindE (spreadObj item) (\<lambda>props.
     bindE (getProp item ''openingStock'') (\<lambda>openingStock.
     bindE (js_add (js_or openingStock (Num 0)) (js_or (lookup productionsByItem k) (Num 0))) (\<lambda>a.
     bindE (js_add a (Num 1)) (\<lambda>n.
     Inr (Obj (AList.update ''nextBaleNumber'' n props))))))))"

definition processState :: "obj \<Rightarrow> error + obj" where
  "processState state =
     bindE (arrayMethod (lookup state ''productions'')) (\<lambda>productions.
     bindE (foldM addProduction [] productions) (\<lambda>productionsByItem.
     bindE (arrayMethod (lookup state ''items'')) (\<lambda>its.
     bindE (mapM (withNextBaleNumber productionsByItem) its) (\<lambda>items.
     Inr (AList.update ''items'' (Arr items) state)))))"

text \<open>\<^verbatim>\<open>const initialState = processState(getInitialState())\<close>\<close>

definition initialState :: obj where
  "initialState = (case processState getInitialState of Inr s \<Rightarrow> s | Inl e \<Rightarrow> [])"

subsection \<open>The cases of \<^verbatim>\<open>dataReducer\<close> (lines 761-952)\<close>

text \<open>\<^verbatim>\<open>ADD_PLANNER_ENTITY\<close> and \<^verbatim>\<open>REMOVE_PLANNER_ENTITY\<close> (lines 763-775).\<close>

definition plannerKey :: "jsval \<Rightarrow> string" where
  "plannerKey entityType =
     (if strict_eq entityType (Str ''customer'') then ''plannerCustomerIds''
      else if strict_eq entityType (Str ''supplier'') then ''plannerSupplierIds''
      else ''plannerExpenseAccountIds'')"

definition addPlannerEntity :: "obj \<Rightarrow> jsval \<Rightarrow> error + obj" where
  "addPlannerEntity state payload =
     bindE (getProp payload ''entityType'') (\<lambda>entityType.
     bindE (getProp payload ''entityId'') (\<lambda>entityId.
     let key = plannerKey entityType;
         currentIds = js_or (lookup state key) (Arr [])
     in bindE (includesM currentIds entityId) (\<lambda>present.
        if present then Inr state
        else bindE (spreadIter currentIds) (\<lambda>ids.
             Inr (AList.update key (Arr (ids @ [entityId])) state)))))"

definition removePlannerEntity :: "obj \<Rightarrow> jsval \<Rightarrow> error + obj" where
  "removePlannerEntity state payload =
     bindE (getProp payload ''entityType'') (\<lambda>entityType.
     bindE (getProp payload ''entityId'') (\<lambda>entityId.
     let key = plannerKey entityType;
         currentIds = js_or (lookup state key) (Arr [])
     in bindE (arrayMethod currentIds) (\<lambda>ids.
        Inr (AList.update key (Arr (filter (\<lambda>i. \<not> strict_eq i entityId) ids)) state))))"

text \<open>
  \<^verbatim>\<open>HARD_RESET_TRANSACTIONS\<close> (lines 776-813): \<^verbatim>\<open>{ ...state, k: v, ... }\<close> with
  these properties, in the order of the source.
\<close>

definition hardResetFields :: obj where
  "hardResetFields =
     [(''salesInvoices'', Arr []),
      (''originalPurchases'', Arr []),
      (''finishedGoodsPurchases'', Arr []),
      (''packingMaterialPurchases'', Arr []),
      (''journalEntries'', Arr []),
      (''productions'', Arr []),
      (''originalOpenings'', Arr []),
      (''ongoingOrders'', Arr []),
      (''logisticsEntries'', Arr []),
      (''attendanceRecords'', Arr []),
      (''salaryPayments'', Arr []),
      (''hrTasks'', Arr []),
      (''hrEnquiries'', Arr []),
      (''favoriteCombinations'', Arr []),
      (''testEntries'', Arr []),
      (''depreciationEntries'', Arr []),
      (''nextInvoiceNumber'', Num 1),
      (''nextOngoingOrderNumber'', Num 1),
      (''nextFinishedGoodsPurchaseNumber'', Num 1),
      (''nextPackingMaterialPurchaseNumber'', Num 1),
      (''nextLogisticsSNo'', Num 1),
      (''nextReceiptVoucherNumber'', Num 1),
      (''nextPaymentVoucherNumber'', Num 1),
      (''nextExpenseVoucherNumber'', Num 1),
      (''nextJournalVoucherNumber'', Num 1),
      (''nextTestEntryNumber'', Num 1),
      (''nextHRTaskId'', Num 1),
      (''nextHREnquiryId'', Num 1),
      (''plannerData'', Obj []),
      (''plannerLastWeeklyReset'', Str []),
      (''plannerLastMonthlyReset'', Str [])]"

definition hardResetTransactions :: "obj \<Rightarrow> obj" where
  "hardResetTransactions state = objAssign state hardResetFields"

text \<open>
  \<^verbatim>\<open>ADD_ENTITY\<close> (lines 819-843). The nine statements
  \<^verbatim>\<open>if (entity === e) newState.c = state.c + 1\<close> are the rows of \<open>counterOfEntity\<close>,
  run in the order of the source.
\<close>

definition counterOfEntity :: "(string \<times> string) list" where
  "counterOfEntity =
     [(''salesInvoices'', ''nextInvoiceNumber''),
      (''ongoingOrders'', ''nextOngoingOrderNumber''),
      (''finishedGoodsPurchases'', ''nextFinishedGoodsPurchaseNumber''),
      (''packingMaterialPurchases'', ''nextPackingMaterialPurchaseNumber''),
      (''logisticsEntries'', ''nextLogisticsSNo''),
      (''guaranteeCheques'', ''nextGuaranteeChequeSNo''),
      (''hrTasks'', ''nextHRTaskId''),
      (''hrEnquiries'', ''nextHREnquiryId''),
      (''testEntries'', ''nextTestEntryNumber'')]"

definition bumpCounter :: "obj \<Rightarrow> string \<Rightarrow> obj \<Rightarrow> error + obj" where
  "bumpCounter state c newState =
     bindE (js_add (lookup state c) (Num 1)) (\<lambda>v. Inr (AList.update c v newState))"

definition bumpEntityCounters :: "obj \<Rightarrow> jsval \<Rightarrow> obj \<Rightarrow> error + obj" where
  "bumpEntityCounters state entity newState =
     foldM (\<lambda>ns ec. if strict_eq entity (Str (fst ec)) then bumpCounter state (snd ec) ns
                     else Inr ns)
       newState counterOfEntity"

text \<open>
  The chain \<^verbatim>\<open>if (entry.entryType === T && entry.voucherId.startsWith(p)) ... else if ...\<close>
  of lines 836-839, one row per branch.
\<close>

definition voucherSeries :: "(JournalEntryType \<times> string \<times> string) list" where
  "voucherSeries =
     [(Receipt, ''RV-'', ''nextReceiptVoucherNumber''),
      (Payment, ''PV-'', ''nextPaymentVoucherNumber''),
      (Expense, ''EV-'', ''nextExpenseVoucherNumber''),
      (Journal, ''JV-'', ''nextJournalVoucherNumber'')]"

fun bumpVoucherCounter ::
  "env \<Rightarrow> obj \<Rightarrow> jsval \<Rightarrow> (JournalEntryType \<times> string \<times> string) list \<Rightarrow> obj \<Rightarrow> error + obj" where
  "bumpVoucherCounter env state entry [] newState = Inr newState"
| "bumpVoucherCounter env state entry (row # rows) newState =
     bindE (getProp entry ''entryType'') (\<lambda>entryType.
     if strict_eq entryType (enumValue env (fst row))
     then bindE (getProp entry ''voucherId'') (\<lambda>voucherId.
          bindE (startsWithM voucherId (fst (snd row))) (\<lambda>b.
          if b then bumpCounter state (snd (snd row)) newState
          else bumpVoucherCounter env state entry rows newState))
     else bumpVoucherCounter env state entry rows newState)"

text \<open>\<^verbatim>\<open>je => je.voucherId === entry.voucherId\<close>\<close>

definition sameVoucher :: "jsval \<Rightarrow> jsval \<Rightarrow> error + bool" where
  "sameVoucher entry je =
     bindE (getProp je ''voucherId'') (\<lambda>a.
     bindE (getProp entry ''voucherId'') (\<lambda>b. Inr (strict_eq a b)))"

definition addEntity :: "env \<Rightarrow> obj \<Rightarrow> jsval \<Rightarrow> error + obj" where
  "addEntity env state payload =
     bindE (getProp payload ''entity'') (\<lambda>entity.
     bindE (getProp payload ''data'') (\<lambda>data.
     bindE (toKey entity) (\<lambda>k.
     bindE (spreadIter (lookup state k)) (\<lambda>entityArray.
     bindE (bumpEntityCounters state entity
              (AList.update k (Arr (entityArray @ [data])) state)) (\<lambda>newState.
     if strict_eq entity (Str ''journalEntries'')
     then bindE (arrayMethod (lookup state ''journalEntries'')) (\<lambda>journalEntries.
          bindE (someM (sameVoucher data) journalEntries) (\<lambda>seen.
          if \<not> seen then bumpVoucherCounter env state data voucherSeries newState
          else Inr newState))
     else Inr newState)))))"

text \<open>\<^verbatim>\<open>UPDATE_ENTITY\<close> (lines 844-848) and \<^verbatim>\<open>DELETE_ENTITY\<close> (lines 849-853).\<close>

definition mergeIfSameId :: "jsval \<Rightarrow> jsval \<Rightarrow> error + jsval" where
  "mergeIfSameId data item =
     bindE (getProp item ''id'') (\<lambda>a.
     bindE (getProp data ''id'') (\<lambda>b.
     if strict_eq a b
     then bindE (spreadObj item) (\<lambda>i. bindE (spreadObj data) (\<lambda>d. Inr (Obj (objAssign i d))))
     else Inr item))"

definition updateEntity :: "obj \<Rightarrow> jsval \<Rightarrow> error + obj" where
  "updateEntity state payload =
     bindE (getProp payload ''entity'') (\<lambda>entity.
     bindE (getProp payload ''data'') (\<lambda>data.
     bindE (toKey entity) (\<lambda>k.
     bindE (arrayMethod (lookup state k)) (\<lambda>entityArray.
     bindE (mapM (mergeIfSameId data) entityArray) (\<lambda>updated.
     Inr (AList.update k (Arr updated) state))))))"

definition otherId :: "jsval \<Rightarrow> jsval \<Rightarrow> error + bool" where
  "otherId ident item = bindE (getProp item ''id'') (\<lambda>a. Inr (\<not> strict_eq a ident))"

definition deleteEntity :: "obj \<Rightarrow> jsval \<Rightarrow> error + obj" where
  "deleteEntity state payload =
     bindE (getProp payload ''entity'') (\<lambda>entity.
     bindE (getProp payload ''id'') (\<lambda>ident.
     bindE (toKey entity) (\<lambda>k.
     bindE (arrayMethod (lookup state k)) (\<lambda>entityArray.
     bindE (filterM (otherId ident) entityArray) (\<lambda>kept.
     Inr (AList.update k (Arr kept) state))))))"

text \<open>
  \<^verbatim>\<open>TOGGLE_FAVORITE_COMBINATION\<close> (lines 854-863). The comparator is
  \<^verbatim>\<open>(a, b) => b.date.localeCompare(a.date)\<close>.
\<close>

definition favDateIs :: "jsval \<Rightarrow> jsval \<Rightarrow> error + bool" where
  "favDateIs date fav = bindE (getProp fav ''date'') (\<lambda>d. Inr (strict_eq d date))"

definition favDateIsNot :: "jsval \<Rightarrow> jsval \<Rightarrow> error + bool" where
  "favDateIsNot date fav = bindE (getProp fav ''date'') (\<lambda>d. Inr (\<not> strict_eq d date))"

definition favCompare :: "env \<Rightarrow> jsval \<Rightarrow> jsval \<Rightarrow> error + int" where
  "favCompare env a b =
     bindE (getProp b ''date'') (\<lambda>bd.
     bindE (getProp a ''date'') (\<lambda>ad.
     case bd of
       Str s \<Rightarrow> (case ad of Str t \<Rightarrow> Inr (localeCompare env s t) | _ \<Rightarrow> Inl NotModelled)
     | _ \<Rightarrow> Inl TypeError))"

definition toggleFavoriteCombination :: "env \<Rightarrow> obj \<Rightarrow> jsval \<Rightarrow> error + obj" where
  "toggleFavoriteCombination env state payload =
     bindE (getProp payload ''date'') (\<lambda>date.
     bindE (arrayMethod (lookup state ''favoriteCombinations'')) (\<lambda>favs.
     bindE (someM (favDateIs date) favs) (\<lambda>isFavorite.
     if isFavorite
     then bindE (filterM (favDateIsNot date) favs) (\<lambda>kept.
          Inr (AList.update ''favoriteCombinations'' (Arr kept) state))
     else bindE (sortBy (favCompare env) (favs @ [Obj [(''date'', date)]])) (\<lambda>newFavorites.
          Inr (AList.update ''favoriteCombinations'' (Arr newFavorites) state)))))"

text \<open>\<^verbatim>\<open>SET_PLANNER_DATA\<close> (line 864): \<^verbatim>\<open>{ ...state, ...action.payload }\<close>\<close>

definition setPlannerData :: "obj \<Rightarrow> jsval \<Rightarrow> error + obj" where
  "setPlannerData state payload = bindE (spreadObj payload) (\<lambda>p. Inr (objAssign state p))"

text \<open>
  \<^verbatim>\<open>RESTORE_STATE\<close> (lines 865-949). The guard is
  \<^verbatim>\<open>firestoreState && typeof firestoreState === 'object' && 'customers' in firestoreState\<close>.
  The object literal \<^verbatim>\<open>newState\<close> has one property per key, in the order of the three
  lists below: \<^verbatim>\<open>k: firestoreState.k || defaultState.k\<close> for the keys of
  \<open>restoreOrKeys\<close> and of \<open>restorePlannerKeys\<close>, and
  \<^verbatim>\<open>k: firestoreState.k ?? defaultState.k\<close> for the keys of \<open>restoreCounterKeys\<close>.
\<close>

definition restoreOrKeys :: "string list" where
  "restoreOrKeys =
     [''customers'', ''suppliers'', ''vendors'', ''subSuppliers'', ''commissionAgents'',
      ''items'', ''originalTypes'', ''originalProducts'', ''divisions'', ''subDivisions'',
      ''warehouses'', ''sections'', ''categories'', ''logos'', ''assetTypes'',
      ''freightForwarders'', ''clearingAgents'', ''banks'', ''cashAccounts'',
      ''loanAccounts'', ''capitalAccounts'', ''investmentAccounts'', ''expenseAccounts'',
      ''inventoryAccounts'', ''packingMaterialInventoryAccounts'', ''fixedAssetAccounts'',
      ''accumulatedDepreciationAccounts'', ''receivableAccounts'', ''revenueAccounts'',
      ''payableAccounts'', ''employees'', ''attendanceRecords'', ''salaryPayments'',
      ''hrTasks'', ''hrEnquiries'', ''vehicles'', ''fixedAssets'', ''depreciationEntries'',
      ''originalOpenings'', ''originalPurchases'', ''productions'', ''salesInvoices'',
      ''ongoingOrders'', ''finishedGoodsPurchases'', ''packingMaterialItems'',
      ''packingMaterialPurchases'', ''logisticsEntries'', ''guaranteeCheques'',
      ''customsDocuments'', ''favoriteCombinations'', ''journalEntries'', ''testEntries'']"

definition restoreCounterKeys :: "string list" where
  "restoreCounterKeys =
     [''nextInvoiceNumber'', ''nextOngoingOrderNumber'',
      ''nextFinishedGoodsPurchaseNumber'', ''nextPackingMaterialPurchaseNumber'',
      ''nextLogisticsSNo'', ''nextHRTaskId'', ''nextHREnquiryId'',
      ''nextGuaranteeChequeSNo'', ''nextReceiptVoucherNumber'',
      ''nextPaymentVoucherNumber'', ''nextExpenseVoucherNumber'',
      ''nextJournalVoucherNumber'', ''nextTestEntryNumber'']"

definition restorePlannerKeys :: "string list" where
  "restorePlannerKeys =
     [''plannerData'', ''plannerLastWeeklyReset'', ''plannerLastMonthlyReset'',
      ''plannerCustomerIds'', ''plannerSupplierIds'', ''plannerExpenseAccountIds'']"

fun typeofObject :: "jsval \<Rightarrow> bool" where
  "typeofObject Null = True"
| "typeofObject (Arr xs) = True"
| "typeofObject (Obj ps) = True"
| "typeofObject v = False"

text \<open>\<^verbatim>\<open>k in v\<close> for a key that is neither \<^verbatim>\<open>length\<close> nor an index.\<close>

fun hasProp :: "string \<Rightarrow> jsval \<Rightarrow> bool" where
  "hasProp k (Obj ps) = (k \<in> set (map fst ps))"
| "hasProp k v = False"

definition validAggregate :: "jsval \<Rightarrow> bool" where
  "validAggregate firestoreState =
     (truthy firestoreState \<and> typeofObject firestoreState \<and> hasProp ''customers'' firestoreState)"

definition restoredFields :: "obj \<Rightarrow> obj \<Rightarrow> obj" where
  "restoredFields firestoreState defaultState =
     map (\<lambda>k. (k, js_or (lookup firestoreState k) (lookup defaultState k))) restoreOrKeys
     @ map (\<lambda>k. (k, js_coalesce (lookup firestoreState k) (lookup defaultState k)))
         restoreCounterKeys
     @ map (\<lambda>k. (k, js_or (lookup firestoreState k) (lookup defaultState k)))
         restorePlannerKeys"

definition restoreState :: "obj \<Rightarrow> jsval \<Rightarrow> error + obj" where
  "restoreState state firestoreState =
     (if validAggregate firestoreState
      then (case firestoreState of
              Obj ps \<Rightarrow> processState (restoredFields ps getInitialState)
            | _ \<Rightarrow> Inr state)
      else Inr state)"

subsection \<open>\<^verbatim>\<open>dataReducer\<close>: the switch on \<^verbatim>\<open>action.type\<close>\<close>

text \<open>
  An action is a value with the properties \<^verbatim>\<open>type\<close> and \<^verbatim>\<open>payload\<close>.
  \<^verbatim>\<open>BATCH_UPDATE\<close> (lines 814-818) folds the reducer over its payload, so the reducer
  recurses through the actions nested in an action; the size of the action bounds it.
\<close>

lemma size_map_of_Obj: "map_of ps k = Some v \<Longrightarrow> size v < size (Obj ps)"
  by (induction ps) (auto split: if_splits)

lemma size_batch_payload:
  assumes "getProp action ''payload'' = Inr payload" and "arrayMethod payload = Inr actions"
  shows "size (Arr actions) < size action"
proof -
  from assms(2) have p: "payload = Arr actions"
    by (cases payload) simp_all
  from assms(1) p obtain ps where a: "action = Obj ps" and l: "lookup ps ''payload'' = Arr actions"
    by (cases action) simp_all
  from l have "map_of ps ''payload'' = Some (Arr actions)"
    by (simp add: lookup_def split: option.splits)
  with a show ?thesis
    by (simp only: size_map_of_Obj)
qed

function dataReducer :: "env \<Rightarrow> obj \<Rightarrow> jsval \<Rightarrow> error + obj"
  and batchUpdate :: "env \<Rightarrow> obj \<Rightarrow> jsval list \<Rightarrow> error + obj" where
  "dataReducer env state action =
     (case getProp action ''type'' of
        Inl e \<Rightarrow> Inl e
      | Inr tag \<Rightarrow>
         (case getProp action ''payload'' of
            Inl e \<Rightarrow> Inl e
          | Inr payload \<Rightarrow>
             if tag = Str ''ADD_PLANNER_ENTITY'' then addPlannerEntity state payload
             else if tag = Str ''REMOVE_PLANNER_ENTITY'' then removePlannerEntity state payload
             else if tag = Str ''HARD_RESET_TRANSACTIONS'' then Inr (hardResetTransactions state)
             else if tag = Str ''BATCH_UPDATE''
             then (case arrayMethod payload of
                     Inl e \<Rightarrow> Inl e
                   | Inr actions \<Rightarrow> batchUpdate env state actions)
             else if tag = Str ''ADD_ENTITY'' then addEntity env state payload
             else if tag = Str ''UPDATE_ENTITY'' then updateEntity state payload
             else if tag = Str ''DELETE_ENTITY'' then deleteEntity state payload
             else if tag = Str ''TOGGLE_FAVORITE_COMBINATION''
             then toggleFavoriteCombination env state payload
             else if tag = Str ''SET_PLANNER_DATA'' then setPlannerData state payload
             else if tag = Str ''RESTORE_STATE'' then restoreState state payload
             else Inr state))"
| "batchUpdate env state [] = Inr state"
| "batchUpdate env state (currentAction # rest) =
     (case dataReducer env state currentAction of
        Inl e \<Rightarrow> Inl e
      | Inr currentState \<Rightarrow> batchUpdate env currentState rest)"
  by pat_completeness auto
termination
proof (relation "measure (\<lambda>x. case x of Inl (env, state, action) \<Rightarrow> size action
                                  | Inr (env, state, actions) \<Rightarrow> size (Arr actions))")
  show "wf (measure (\<lambda>x. case x of Inl (env, state, action) \<Rightarrow> size action
                                  | Inr (env, state, actions) \<Rightarrow> size (Arr actions)))"
    by simp
next
  fix env :: env and state :: obj and action tag payload actions
  assume "getProp action ''payload'' = Inr payload" and "arrayMethod payload = Inr actions"
  then have "size (Arr actions) < size action"
    by (rule size_batch_payload)
  then show "(Inr (env, state, actions), Inl (env, state, action))
        \<in> measure (\<lambda>x. case x of Inl (env, state, action) \<Rightarrow> size action
                                  | Inr (env, state, actions) \<Rightarrow> size (Arr actions))"
    by simp
next
  fix env :: env and state :: obj and currentAction :: jsval and rest :: "jsval list"
  show "(Inl (env, state, currentAction), Inr (env, state, currentAction # rest))
        \<in> measure (\<lambda>x. case x of Inl (env, state, action) \<Rightarrow> size action
                                  | Inr (env, state, actions) \<Rightarrow> size (Arr actions))"
    by simp
next
  fix env :: env and state currentState :: obj and currentAction :: jsval and rest :: "jsval list"
  show "(Inr (env, currentState, rest), Inr (env, state, currentAction # rest))
        \<in> measure (\<lambda>x. case x of Inl (env, state, action) \<Rightarrow> size action
                                  | Inr (env, state, actions) \<Rightarrow> size (Arr actions))"
    by simp
qed

declare dataReducer.simps [simp del]

section \<open>The synchronization layer (App.tsx, DataProvider)\<close>

text \<open>
  The provider holds the reducer's state, the three refs and flags the snapshot listener
  touches, and the save status. \<open>remoteSets\<close> records the documents the listener writes
  to the remote store with \<^verbatim>\<open>db.doc(...).set(...)\<close>. A snapshot is
  \<^verbatim>\<open>doc.exists\<close> and \<^verbatim>\<open>doc.data()\<close>.
\<close>

datatype SaveStatus = Synced | Saving | SaveError







section \<open>Notions used in the statements\<close>

text \<open>
  The action literal \<^verbatim>\<open>{ type: t, payload: p }\<close> as the components dispatch it, and
  \<^verbatim>\<open>{ type: 'ADD_ENTITY', payload: { entity, data } }\<close>.
\<close>

definition mkAction :: "string \<Rightarrow> jsval \<Rightarrow> jsval" where
  "mkAction t p = Obj [(''type'', Str t), (''payload'', p)]"

definition addAction :: "string \<Rightarrow> jsval \<Rightarrow> jsval" where
  "addAction entity data =
     mkAction ''ADD_ENTITY'' (Obj [(''entity'', Str entity), (''data'', data)])"

text \<open>The tags the switch of \<open>dataReducer\<close> has a case for.\<close>

definition handledTags :: "string list" where
  "handledTags =
     [''ADD_PLANNER_ENTITY'', ''REMOVE_PLANNER_ENTITY'', ''HARD_RESET_TRANSACTIONS'',
      ''BATCH_UPDATE'', ''ADD_ENTITY'', ''UPDATE_ENTITY'', ''DELETE_ENTITY'',
      ''TOGGLE_FAVORITE_COMBINATION'', ''SET_PLANNER_DATA'', ''RESTORE_STATE'']"

text \<open>
  An environment for the concrete instances: string-valued enum members and a comparison
  by length. Any other choice serves as well.
\<close>

definition exampleEnv :: env where
  "exampleEnv =
     \<lparr> enumValue = (\<lambda>t. case t of Receipt \<Rightarrow> Str ''Receipt'' | Payment \<Rightarrow> Str ''Payment''
                             | Expense \<Rightarrow> Str ''Expense'' | Journal \<Rightarrow> Str ''Journal''),
       localeCompare = (\<lambda>a b. int (length a) - int (length b)) \<rparr>"

text \<open>
  A row (type, prefix, counter) of \<open>voucherSeries\<close> matches a journal entry when the
  entry's type is the row's enum member and its voucher id starts with the row's prefix;
  an array of journal entries has a voucher id when one of its entries carries it.
\<close>

definition voucherMatch :: "env \<Rightarrow> obj \<Rightarrow> JournalEntryType \<times> string \<times> string \<Rightarrow> bool" where
  "voucherMatch env entry row =
     (strict_eq (lookup entry ''entryType'') (enumValue env (fst row))
      \<and> (\<exists>v. lookup entry ''voucherId'' = Str v \<and> startsWith v (fst (snd row))))"

definition hasVoucher :: "string \<Rightarrow> jsval list \<Rightarrow> bool" where
  "hasVoucher v xs = list_ex (\<lambda>je. getProp je ''voucherId'' = Inr (Str v)) xs"

text \<open>
  No object anywhere in a value has a property whose value is \<^verbatim>\<open>undefined\<close>.
\<close>

fun noUndefinedField :: "jsval \<Rightarrow> bool" where
  "noUndefinedField (Arr xs) = list_all noUndefinedField xs"
| "noUndefinedField (Obj ps) =
     list_all (\<lambda>kv. snd kv \<noteq> Undefined \<and> noUndefinedField (snd kv)) ps"
| "noUndefinedField v = True"

text \<open>
  The serialized form as the specification words it: \<open>w\<close> is \<open>v\<close> with every
  \<^verbatim>\<open>undefined\<close> property value replaced by \<^verbatim>\<open>null\<close>, at any depth, and nothing
  else changed (same array lengths, same property names in the same order, same
  primitives). It is compared with \<open>convertUndefinedToNull\<close> below.
\<close>

fun spec_serialized :: "jsval \<Rightarrow> jsval \<Rightarrow> bool" where
  "spec_serialized (Arr xs) w =
     (case w of Arr ys \<Rightarrow> list_all2 spec_serialized xs ys | _ \<Rightarrow> False)"
| "spec_serialized (Obj ps) w =
     (case w of
        Obj qs \<Rightarrow> list_all2 (\<lambda>p q. fst p = fst q \<and>
                     (if snd p = Undefined then snd q = Null else spec_serialized (snd p) (snd q)))
                   ps qs
      | _ \<Rightarrow> False)"
| "spec_serialized v w = (v = w)"

text \<open>
  The records \<open>processState\<close> reads, as TypeScript types them: a production has a string
  \<^verbatim>\<open>itemId\<close> and a number \<^verbatim>\<open>quantityProduced\<close>; an item has a string
  \<^verbatim>\<open>id\<close> and, if any, a number \<^verbatim>\<open>openingStock\<close>. The ids are dictionary keys and
  do not name a member of \<^verbatim>\<open>Object.prototype\<close>.
\<close>

fun isNum :: "jsval \<Rightarrow> bool" where
  "isNum (Num n) = True"
| "isNum v = False"

fun isObj :: "jsval \<Rightarrow> bool" where
  "isObj (Obj ps) = True"
| "isObj v = False"

fun isDictKey :: "jsval \<Rightarrow> bool" where
  "isDictKey (Str s) = (s \<notin> set objectPrototypeKeys)"
| "isDictKey v = False"

fun isProduction :: "jsval \<Rightarrow> bool" where
  "isProduction (Obj ps) =
     (isDictKey (lookup ps ''itemId'') \<and> isNum (lookup ps ''quantityProduced''))"
| "isProduction v = False"

fun isItem :: "jsval \<Rightarrow> bool" where
  "isItem (Obj ps) =
     (isDictKey (lookup ps ''id'')
      \<and> (\<not> truthy (lookup ps ''openingStock'') \<or> isNum (lookup ps ''openingStock'')))"
| "isItem v = False"

text \<open>A property that is absent, falsy, or an array whose elements satisfy \<open>P\<close>.\<close>

fun falsyOrArrayOf :: "(jsval \<Rightarrow> bool) \<Rightarrow> jsval \<Rightarrow> bool" where
  "falsyOrArrayOf P (Arr xs) = list_all P xs"
| "falsyOrArrayOf P v = (\<not> truthy v)"

section \<open>Properties of the payroll calculator\<close>

lemma foldl_ot_hours: "foldl (\<lambda>acc r. acc + ot_hours r) a xs = a + sum_list (map ot_hours xs)"
  by (induction xs arbitrary: a) simp_all

lemma pressOtStep_add: "pressOtStep acc r = acc + pressPay r"
  by (simp add: pressOtStep_def pressPay_def split: option.splits)

lemma foldl_pressOtStep: "foldl pressOtStep a xs = a + sum_list (map pressPay xs)"
  by (induction xs arbitrary: a) (simp_all add: pressOtStep_add)

lemma filter_conj_length:
  "length (filter Q (filter P xs)) = length (filter (\<lambda>r. P r \<and> Q r) xs)"
  by (induction xs) simp_all

lemma monthStr_2023_0: "monthStr 2023 0 = ''2023-01''"
  by (simp add: monthStr_def showNat.simps digitChar_def padStart2_def)

lemma digitChar_digit: "d < 10 \<Longrightarrow> digitChar d = spec_digit d"
proof -
  assume "d < 10"
  then have "d = 0 \<or> d = 1 \<or> d = 2 \<or> d = 3 \<or> d = 4 \<or> d = 5 \<or> d = 6 \<or> d = 7 \<or> d = 8 \<or> d = 9"
    by arith
  then show ?thesis by (auto simp: digitChar_def spec_digit_def)
qed

lemma spec_digit_mod: "spec_digit (n mod 10) = spec_digit n"
  by (simp add: spec_digit_def)

lemma showNat_digit: "n < 10 \<Longrightarrow> showNat n = [spec_digit n]"
  by (simp add: showNat.simps digitChar_digit)

lemma showNat_step: "10 \<le> n \<Longrightarrow> showNat n = showNat (n div 10) @ [spec_digit n]"
  using digitChar_digit [of "n mod 10"] by (subst showNat.simps) (simp add: spec_digit_mod)

lemma showNat_year:
  assumes "1000 \<le> year" and "year \<le> 9999"
  shows "showNat year = [spec_digit (year div 1000), spec_digit (year div 100),
                         spec_digit (year div 10), spec_digit year]"
proof -
  have a: "10 \<le> year" "10 \<le> year div 10" "10 \<le> year div 100" "year div 1000 < 10"
    using assms by simp_all
  have d: "year div 10 div 10 = year div 100" "year div 100 div 10 = year div 1000"
    by (simp_all add: div_mult2_eq [symmetric])
  have "showNat year = showNat (year div 10) @ [spec_digit year]"
    by (rule showNat_step [OF a(1)])
  also have "showNat (year div 10) = showNat (year div 100) @ [spec_digit (year div 10)]"
    using showNat_step [OF a(2)] by (simp only: d)
  also have "showNat (year div 100) = showNat (year div 1000) @ [spec_digit (year div 100)]"
    using showNat_step [OF a(3)] by (simp only: d)
  also have "showNat (year div 1000) = [spec_digit (year div 1000)]"
    by (rule showNat_digit [OF a(4)])
  finally show ?thesis by simp
qed

lemma padStart2_month:
  assumes "month \<le> 11"
  shows "padStart2 (showNat (month + 1)) = [spec_digit ((month + 1) div 10), spec_digit (month + 1)]"
proof (cases "month + 1 < 10")
  case True
  then have "(month + 1) div 10 = 0" by simp
  then have "spec_digit ((month + 1) div 10) = CHR ''0''" by (simp add: spec_digit_def)
  with True show ?thesis by (simp add: showNat_digit padStart2_def)
next
  case False
  then have a: "10 \<le> month + 1" "(month + 1) div 10 < 10" using assms by simp_all
  have "showNat (month + 1) = showNat ((month + 1) div 10) @ [spec_digit (month + 1)]"
    by (rule showNat_step [OF a(1)])
  also have "showNat ((month + 1) div 10) = [spec_digit ((month + 1) div 10)]"
    by (rule showNat_digit [OF a(2)])
  finally show ?thesis by (simp add: padStart2_def)
qed

lemma monthStr_prefix:
  assumes "1000 \<le> year" and "year \<le> 9999" and "month \<le> 11"
  shows "monthStr year month = spec_monthPrefix year month"
  using showNat_year [OF assms(1,2)] padStart2_month [OF assms(3)]
  by (simp add: monthStr_def spec_monthPrefix_def)

lemma inMonth_prefix:
  assumes "1000 \<le> year" and "year \<le> 9999" and "month \<le> 11"
  shows "inMonth employee year month rid rdate
       = (rid = emp_id employee \<and> take 7 rdate = spec_monthPrefix year month)"
proof -
  have "length (spec_monthPrefix year month) = 7" by (simp add: spec_monthPrefix_def)
  then show ?thesis
    by (simp add: inMonth_def startsWith_def monthStr_prefix [OF assms])
qed

lemma yearsOfService_ms:
  "yearsOfService endTime joinTime = max 0 (of_int (endTime - joinTime) / 31557600000)"
  by (simp add: yearsOfService_def)

lemma labour_amount_1200:
  "(600 * max 0 (of_int diff / 31557600000) = (1200::rat)) = (diff = 63115200000)"
proof -
  have "(600 * max 0 (of_int diff / 31557600000) = (1200::rat))
      = (max 0 (of_int diff / 31557600000) = (2::rat))" by auto
  also have "\<dots> = ((of_int diff :: rat) / 31557600000 = 2)" by (auto simp: max_def)
  also have "\<dots> = ((of_int diff :: rat) = of_int 63115200000)" by (simp add: field_simps)
  also have "\<dots> = (diff = 63115200000)" by (simp only: of_int_eq_iff)
  finally show ?thesis .
qed

text \<open>
  Claim C1, as the code has it. With no employee filter every active employee gets one row.
  For every employee and target month the row has: unpaid-day deduction = (number of the
  employee's Absent records of the month + 0.5 times the number of HalfDay records) times
  basicSalary/30; overtime pay = (sum of the hourly overtime hours) times 7 + for each press
  overtime record its stored amount if one is present and greater than zero, otherwise its
  hours times 7; net payable = basicSalary + allowance + otherExps + overtime pay - deduction
  - advances (a missing advance counts as zero). A record is one of that employee in that
  month when it carries the employee's id and its date string starts with the month's
  prefix; for a year of four digits and a month from January (0) to December (11) that
  prefix is the four digits of the year, a hyphen and the two digits of the month's number,
  so that the first seven characters of the date are, for instance, 2023-01.
\<close>

theorem payroll_row:
  "(let row = reportRow state year month daysInMonth endTime getTime employee;
        absent = length (filter (\<lambda>r. inMonth employee year month (att_employeeId r) (att_date r)
                                  \<and> att_status r = Absent) (attendanceRecords state));
        half = length (filter (\<lambda>r. inMonth employee year month (att_employeeId r) (att_date r)
                                  \<and> att_status r = HalfDay) (attendanceRecords state));
        hourly = filter (\<lambda>r. inMonth employee year month (ot_employeeId r) (ot_date r))
                       (overtimeRecords state);
        press = filter (\<lambda>r. inMonth employee year month (otp_employeeId r) (otp_date r))
                       (overtimePressRecords state)
    in reportData state [] year month daysInMonth endTime getTime =
           map (reportRow state year month daysInMonth endTime getTime)
             (filter (\<lambda>e. emp_status e = ''Active'') (employees state))
       \<and> deductions row = (of_nat absent + 0.5 * of_nat half) * (basicSalary employee / 30)
       \<and> otAmount row = sum_list (map ot_hours hourly) * 7
            + sum_list (map (\<lambda>r. case otp_amount r of
                                    Some a \<Rightarrow> if a > 0 then a else otp_hours r * 7
                                  | None \<Rightarrow> otp_hours r * 7) press)
       \<and> netPayableSalary row = basicSalary employee + allowance employee + otherExps employee
            + otAmount row - deductions row - (case advances employee of Some a \<Rightarrow> a | None \<Rightarrow> 0)
       \<and> (1000 \<le> year \<and> year \<le> 9999 \<and> month \<le> 11 \<longrightarrow>
            (\<forall>rid rdate. inMonth employee year month rid rdate
                = (rid = emp_id employee \<and> take 7 rdate = spec_monthPrefix year month))))"
proof -
  define row where "row = reportRow state year month daysInMonth endTime getTime employee"
  have pp: "pressPay = (\<lambda>r. case otp_amount r of
                                    Some a \<Rightarrow> if a > 0 then a else otp_hours r * 7
                                  | None \<Rightarrow> otp_hours r * 7)"
    by (rule ext) (simp add: pressPay_def pressOtStep_def split: option.splits)
  have d: "deductions row =
      (of_nat (length (filter (\<lambda>r. inMonth employee year month (att_employeeId r) (att_date r)
                                  \<and> att_status r = Absent) (attendanceRecords state)))
       + 0.5 * of_nat (length (filter (\<lambda>r. inMonth employee year month (att_employeeId r) (att_date r)
                                  \<and> att_status r = HalfDay) (attendanceRecords state))))
      * (basicSalary employee / 30)"
    unfolding row_def
    by (simp add: reportRow_def Let_def filter_conj_length inMonth_def)
  have o: "otAmount row =
      sum_list (map ot_hours (filter (\<lambda>r. inMonth employee year month (ot_employeeId r) (ot_date r))
                       (overtimeRecords state))) * 7
      + sum_list (map pressPay (filter (\<lambda>r. inMonth employee year month (otp_employeeId r) (otp_date r))
                       (overtimePressRecords state)))"
    unfolding row_def
    by (simp add: reportRow_def Let_def foldl_ot_hours foldl_pressOtStep inMonth_def)
  have n: "netPayableSalary row = basicSalary employee + allowance employee + otherExps employee
            + otAmount row - deductions row - advancesOrZero employee"
    unfolding row_def by (simp add: reportRow_def Let_def)
  have r: "reportData state [] year month daysInMonth endTime getTime =
           map (reportRow state year month daysInMonth endTime getTime)
             (filter (\<lambda>e. emp_status e = ''Active'') (employees state))"
    by (simp add: reportData_def)
  have m: "1000 \<le> year \<and> year \<le> 9999 \<and> month \<le> 11 \<longrightarrow>
            (\<forall>rid rdate. inMonth employee year month rid rdate
                = (rid = emp_id employee \<and> take 7 rdate = spec_monthPrefix year month))"
    using inMonth_prefix by blast
  have body: "deductions row =
      (of_nat (length (filter (\<lambda>r. inMonth employee year month (att_employeeId r) (att_date r)
                                  \<and> att_status r = Absent) (attendanceRecords state)))
       + 0.5 * of_nat (length (filter (\<lambda>r. inMonth employee year month (att_employeeId r) (att_date r)
                                  \<and> att_status r = HalfDay) (attendanceRecords state))))
      * (basicSalary employee / 30)
    \<and> otAmount row =
      sum_list (map ot_hours (filter (\<lambda>r. inMonth employee year month (ot_employeeId r) (ot_date r))
                       (overtimeRecords state))) * 7
      + sum_list (map (\<lambda>r. case otp_amount r of
                                    Some a \<Rightarrow> if a > 0 then a else otp_hours r * 7
                                  | None \<Rightarrow> otp_hours r * 7)
           (filter (\<lambda>r. inMonth employee year month (otp_employeeId r) (otp_date r))
                       (overtimePressRecords state)))
    \<and> netPayableSalary row = basicSalary employee + allowance employee + otherExps employee
            + otAmount row - deductions row - (case advances employee of Some a \<Rightarrow> a | None \<Rightarrow> 0)"
    using d o n unfolding pp by (simp add: advancesOrZero_def)
  show ?thesis
    unfolding Let_def row_def [symmetric]
    using body r m by blast
qed

text \<open>
  An instance: basicSalary 3000, two Absent days and one HalfDay in January 2023, three
  hours of hourly overtime and one pooled press amount of 50 give a deduction of 250,
  overtime pay 71 and net pay 2821. The records of February 2023, of January 2022, of
  December 2023 and of another employee are not counted.
\<close>

theorem payroll_row_witness:
  "(let employee = \<lparr> emp_id = ''E1'', emp_status = ''Active'', employeeType = ''Office'',
            joiningDate = ''2021-01-31'', basicSalary = 3000, allowance = 0, otherExps = 0,
            advances = None \<rparr>;
        row = reportRow
          \<lparr> employees = [employee],
            attendanceRecords =
              [\<lparr> att_employeeId = ''E1'', att_date = ''2023-01-02'', att_status = Absent \<rparr>,
               \<lparr> att_employeeId = ''E1'', att_date = ''2023-02-02'', att_status = Absent \<rparr>,
               \<lparr> att_employeeId = ''E1'', att_date = ''2023-01-03'', att_status = Absent \<rparr>,
               \<lparr> att_employeeId = ''E2'', att_date = ''2023-01-03'', att_status = Absent \<rparr>,
               \<lparr> att_employeeId = ''E1'', att_date = ''2022-01-04'', att_status = HalfDay \<rparr>,
               \<lparr> att_employeeId = ''E1'', att_date = ''2023-01-04'', att_status = HalfDay \<rparr>],
            overtimeRecords =
              [\<lparr> ot_employeeId = ''E1'', ot_date = ''2023-01-05'', ot_hours = 3 \<rparr>,
               \<lparr> ot_employeeId = ''E1'', ot_date = ''2023-12-05'', ot_hours = 5 \<rparr>,
               \<lparr> ot_employeeId = ''E2'', ot_date = ''2023-01-05'', ot_hours = 4 \<rparr>],
            overtimePressRecords =
              [\<lparr> otp_employeeId = ''E1'', otp_date = ''2023-02-06'', otp_hours = 1,
                 otp_amount = Some 80 \<rparr>,
               \<lparr> otp_employeeId = ''E1'', otp_date = ''2023-01-06'', otp_hours = 2,
                 otp_amount = Some 50 \<rparr>] \<rparr>
          2023 0 31 1675123200000 (\<lambda>s. 1612051200000) employee
    in deductions row = 250 \<and> otAmount row = 71 \<and> netPayableSalary row = 2821
       \<and> inMonth employee 2023 0 ''E1'' ''2023-01-02''
       \<and> \<not> inMonth employee 2023 0 ''E1'' ''2023-02-02''
       \<and> \<not> inMonth employee 2023 0 ''E1'' ''2022-01-04''
       \<and> \<not> inMonth employee 2023 0 ''E1'' ''2023-12-05''
       \<and> \<not> inMonth employee 2023 0 ''E2'' ''2023-01-03'')"
proof -
  let ?e = "\<lparr> emp_id = ''E1'', emp_status = ''Active'', employeeType = ''Office'',
            joiningDate = ''2021-01-31'', basicSalary = 3000, allowance = 0, otherExps = 0,
            advances = None \<rparr>"
  let ?s = "\<lparr> employees = [?e],
            attendanceRecords =
              [\<lparr> att_employeeId = ''E1'', att_date = ''2023-01-02'', att_status = Absent \<rparr>,
               \<lparr> att_employeeId = ''E1'', att_date = ''2023-02-02'', att_status = Absent \<rparr>,
               \<lparr> att_employeeId = ''E1'', att_date = ''2023-01-03'', att_status = Absent \<rparr>,
               \<lparr> att_employeeId = ''E2'', att_date = ''2023-01-03'', att_status = Absent \<rparr>,
               \<lparr> att_employeeId = ''E1'', att_date = ''2022-01-04'', att_status = HalfDay \<rparr>,
               \<lparr> att_employeeId = ''E1'', att_date = ''2023-01-04'', att_status = HalfDay \<rparr>],
            overtimeRecords =
              [\<lparr> ot_employeeId = ''E1'', ot_date = ''2023-01-05'', ot_hours = 3 \<rparr>,
               \<lparr> ot_employeeId = ''E1'', ot_date = ''2023-12-05'', ot_hours = 5 \<rparr>,
               \<lparr> ot_employeeId = ''E2'', ot_date = ''2023-01-05'', ot_hours = 4 \<rparr>],
            overtimePressRecords =
              [\<lparr> otp_employeeId = ''E1'', otp_date = ''2023-02-06'', otp_hours = 1,
                 otp_amount = Some 80 \<rparr>,
               \<lparr> otp_employeeId = ''E1'', otp_date = ''2023-01-06'', otp_hours = 2,
                 otp_amount = Some 50 \<rparr>] \<rparr>"
  have p: "spec_monthPrefix 2023 0 = ''2023-01''"
    by (simp add: spec_monthPrefix_def spec_digit_def)
  have y: "(1000::nat) \<le> 2023 \<and> (2023::nat) \<le> 9999 \<and> (0::nat) \<le> 11" by simp
  from payroll_row [of ?s 2023 0 31 1675123200000 "\<lambda>s. 1612051200000" ?e] y
  have m: "\<forall>rid rdate. inMonth ?e 2023 0 rid rdate = (rid = ''E1'' \<and> take 7 rdate = ''2023-01'')"
    by (simp add: Let_def p)
  from payroll_row [of ?s 2023 0 31 1675123200000 "\<lambda>s. 1612051200000" ?e]
  have "deductions (reportRow ?s 2023 0 31 1675123200000 (\<lambda>s. 1612051200000) ?e) = 250
      \<and> otAmount (reportRow ?s 2023 0 31 1675123200000 (\<lambda>s. 1612051200000) ?e) = 71
      \<and> netPayableSalary (reportRow ?s 2023 0 31 1675123200000 (\<lambda>s. 1612051200000) ?e) = 2821"
    unfolding Let_def by (simp add: m)
  then show ?thesis
    unfolding Let_def by (simp add: m)
qed

text \<open>
  Claim C1 as stated fails where a press overtime record stores an amount that is not
  positive: the record below stores the amount 0 and two hours. The claim pays the stored
  amount, 0; the row pays the hours, 14.
\<close>

theorem payroll_press_amount_counterexample:
  "otAmount (reportRow
      \<lparr> employees = [\<lparr> emp_id = ''E1'', emp_status = ''Active'', employeeType = ''Labour'',
            joiningDate = ''2021-01-31'', basicSalary = 1500, allowance = 0, otherExps = 0,
            advances = Some 0 \<rparr>],
        attendanceRecords = [], overtimeRecords = [],
        overtimePressRecords = [\<lparr> otp_employeeId = ''E1'', otp_date = ''2023-01-15'',
                                   otp_hours = 2, otp_amount = Some 0 \<rparr>] \<rparr>
      2023 0 31 1675123200000 (\<lambda>s. 1612051200000)
      \<lparr> emp_id = ''E1'', emp_status = ''Active'', employeeType = ''Labour'',
            joiningDate = ''2021-01-31'', basicSalary = 1500, allowance = 0, otherExps = 0,
            advances = Some 0 \<rparr>) = 14
   \<and> sum_list (map ot_hours []) * 7
       + sum_list (map spec_pressPay [\<lparr> otp_employeeId = ''E1'', otp_date = ''2023-01-15'',
                                   otp_hours = 2, otp_amount = Some 0 \<rparr>]) = 0"
  by (simp add: reportRow_def Let_def monthStr_2023_0 startsWith_def pressOtStep_def
      spec_pressPay_def)

text \<open>
  Claim C2. For every employee whose type is not Labour, with dailyWage = basicSalary/30:
  the gratuity of the row is zero below one year of service, dailyWage times 21 times the
  years of service from one to five years, and dailyWage times 30 times the years of
  service beyond five years. With 3 years and basicSalary 3000 it is 6300, with 6 years
  and basicSalary 3000 it is 18000.
\<close>

theorem gratuity_non_labour:
  assumes "employeeType employee \<noteq> ''Labour''"
  shows "(let yrs = yearsOfService endTime (getTime (joiningDate employee));
              row = reportRow state year month daysInMonth endTime getTime employee;
              dailyWage = basicSalary employee / 30
          in gratuityAmount row =
               (if yrs < 1 then 0
                else if yrs \<le> 5 then dailyWage * 21 * yrs
                else dailyWage * 30 * yrs)
           \<and> (yrs = 3 \<and> basicSalary employee = 3000 \<longrightarrow> gratuityAmount row = 6300)
           \<and> (yrs = 6 \<and> basicSalary employee = 3000 \<longrightarrow> gratuityAmount row = 18000))"
  using assms by (simp add: reportRow_def Let_def gratuityAccrued_def)

text \<open>
  An Office employee who joined at time 0, seen 3 and 6 years of 365.25 days later.
\<close>

theorem gratuity_non_labour_witness:
  "yearsOfService 94672800000 0 = 3 \<and> yearsOfService 189345600000 0 = 6
   \<and> gratuityAmount (reportRow
        \<lparr> employees = [], attendanceRecords = [], overtimeRecords = [],
          overtimePressRecords = [] \<rparr> 1972 11 31 94672800000 (\<lambda>s. 0)
        \<lparr> emp_id = ''E2'', emp_status = ''Active'', employeeType = ''Office'',
          joiningDate = ''1970-01-01'', basicSalary = 3000, allowance = 0, otherExps = 0,
          advances = None \<rparr>) = 6300
   \<and> gratuityAmount (reportRow
        \<lparr> employees = [], attendanceRecords = [], overtimeRecords = [],
          overtimePressRecords = [] \<rparr> 1975 11 31 189345600000 (\<lambda>s. 0)
        \<lparr> emp_id = ''E2'', emp_status = ''Active'', employeeType = ''Office'',
          joiningDate = ''1970-01-01'', basicSalary = 3000, allowance = 0, otherExps = 0,
          advances = None \<rparr>) = 18000"
proof -
  let ?e = "\<lparr> emp_id = ''E2'', emp_status = ''Active'', employeeType = ''Office'',
          joiningDate = ''1970-01-01'', basicSalary = 3000, allowance = 0, otherExps = 0,
          advances = None \<rparr>"
  let ?s = "\<lparr> employees = [], attendanceRecords = [], overtimeRecords = [],
          overtimePressRecords = [] \<rparr>"
  have ne: "employeeType ?e \<noteq> ''Labour''" by simp
  have y3: "yearsOfService 94672800000 0 = 3" by (simp add: yearsOfService_def)
  have y6: "yearsOfService 189345600000 0 = 6" by (simp add: yearsOfService_def)
  from gratuity_non_labour [OF ne, of 94672800000 "\<lambda>s. 0" ?s 1972 11 31]
  have g3: "gratuityAmount (reportRow ?s 1972 11 31 94672800000 (\<lambda>s. 0) ?e) = 6300"
    by (simp add: Let_def y3)
  from gratuity_non_labour [OF ne, of 189345600000 "\<lambda>s. 0" ?s 1975 11 31]
  have g6: "gratuityAmount (reportRow ?s 1975 11 31 189345600000 (\<lambda>s. 0) ?e) = 18000"
    by (simp add: Let_def y6)
  from y3 y6 g3 g6 show ?thesis by simp
qed

text \<open>
  Claim C3, as the code has it. For an employee whose type is not Labour and whose years
  of service are below 1, the gratuity of the row is zero. For a Labour employee the
  gratuity is 600 times the years of service, with no one-year threshold: it is zero only
  when the years of service are zero.
\<close>

theorem gratuity_below_one_year:
  "(let yrs = yearsOfService endTime (getTime (joiningDate employee));
        row = reportRow state year month daysInMonth endTime getTime employee
    in (employeeType employee \<noteq> ''Labour'' \<and> yrs < 1 \<longrightarrow> gratuityAmount row = 0)
     \<and> (employeeType employee = ''Labour'' \<longrightarrow> gratuityAmount row = yrs * 600)
     \<and> (employeeType employee = ''Labour'' \<longrightarrow> (gratuityAmount row = 0) = (yrs = 0)))"
  by (simp add: reportRow_def Let_def gratuityAccrued_def)

text \<open>An Office and a Labour employee, both with half a year of service.\<close>

theorem gratuity_below_one_year_witness:
  "yearsOfService 15778800000 0 = 1 / 2
   \<and> gratuityAmount (reportRow
        \<lparr> employees = [], attendanceRecords = [], overtimeRecords = [],
          overtimePressRecords = [] \<rparr> 1970 5 30 15778800000 (\<lambda>s. 0)
        \<lparr> emp_id = ''E2'', emp_status = ''Active'', employeeType = ''Office'',
          joiningDate = ''1970-01-01'', basicSalary = 3000, allowance = 0, otherExps = 0,
          advances = None \<rparr>) = 0
   \<and> gratuityAmount (reportRow
        \<lparr> employees = [], attendanceRecords = [], overtimeRecords = [],
          overtimePressRecords = [] \<rparr> 1970 5 30 15778800000 (\<lambda>s. 0)
        \<lparr> emp_id = ''E1'', emp_status = ''Active'', employeeType = ''Labour'',
          joiningDate = ''1970-01-01'', basicSalary = 1500, allowance = 0, otherExps = 0,
          advances = None \<rparr>) = 300"
proof -
  let ?o = "\<lparr> emp_id = ''E2'', emp_status = ''Active'', employeeType = ''Office'',
          joiningDate = ''1970-01-01'', basicSalary = 3000, allowance = 0, otherExps = 0,
          advances = None \<rparr>"
  let ?l = "\<lparr> emp_id = ''E1'', emp_status = ''Active'', employeeType = ''Labour'',
          joiningDate = ''1970-01-01'', basicSalary = 1500, allowance = 0, otherExps = 0,
          advances = None \<rparr>"
  let ?s = "\<lparr> employees = [], attendanceRecords = [], overtimeRecords = [],
          overtimePressRecords = [] \<rparr>"
  have y: "yearsOfService 15778800000 0 = 1 / 2" by (simp add: yearsOfService_def)
  from gratuity_below_one_year [of 15778800000 "\<lambda>s. 0" ?o ?s 1970 5 30]
  have a: "gratuityAmount (reportRow ?s 1970 5 30 15778800000 (\<lambda>s. 0) ?o) = 0"
    by (simp add: Let_def y)
  from gratuity_below_one_year [of 15778800000 "\<lambda>s. 0" ?l ?s 1970 5 30]
  have b: "gratuityAmount (reportRow ?s 1970 5 30 15778800000 (\<lambda>s. 0) ?l) = 300"
    by (simp add: Let_def y)
  from y a b show ?thesis by simp
qed

text \<open>
  Claim C3 as stated fails for a Labour employee: with half a year of service (less than
  1) the gratuity of the row is 300, not zero.
\<close>

theorem gratuity_labour_counterexample:
  "yearsOfService 15778800000 0 < 1
   \<and> gratuityAmount (reportRow
        \<lparr> employees = [], attendanceRecords = [], overtimeRecords = [],
          overtimePressRecords = [] \<rparr> 1970 5 30 15778800000 (\<lambda>s. 0)
        \<lparr> emp_id = ''E1'', emp_status = ''Active'', employeeType = ''Labour'',
          joiningDate = ''1970-01-01'', basicSalary = 1500, allowance = 0, otherExps = 0,
          advances = None \<rparr>) = 300"
  by (simp add: reportRow_def Let_def gratuityAccrued_def yearsOfService_def)

text \<open>
  Claim C4, as the code has it. For a Labour employee, whatever the basicSalary, the
  gratuity and the leave salary of the row are both 600 times the years of service, and
  the years of service are the milliseconds from the joining time to the month end divided
  by 31557600000 (the day difference divided by 365.25), or zero when the joining time is
  later. Either amount is 1200 exactly when that difference is 63115200000 milliseconds,
  which is 730.5 days. A difference of 730 days gives 584000/487 (about 1199.18) and one
  of 731 days 584800/487 (about 1200.82).
\<close>

theorem labour_two_years:
  assumes "employeeType employee = ''Labour''"
  shows "(let row = reportRow state year month daysInMonth endTime getTime employee;
              diff = endTime - getTime (joiningDate employee)
          in gratuityAmount row = 600 * max 0 (of_int diff / 31557600000)
           \<and> leaveSalaryAccrued row = 600 * max 0 (of_int diff / 31557600000)
           \<and> (gratuityAmount row = 1200) = (diff = 63115200000)
           \<and> (leaveSalaryAccrued row = 1200) = (diff = 63115200000)
           \<and> (diff = 730 * 86400000 \<longrightarrow> gratuityAmount row = 584000 / 487)
           \<and> (diff = 731 * 86400000 \<longrightarrow> gratuityAmount row = 584800 / 487))"
proof -
  define diff where "diff = endTime - getTime (joiningDate employee)"
  define row where "row = reportRow state year month daysInMonth endTime getTime employee"
  have g: "gratuityAmount row = 600 * max 0 (of_int diff / 31557600000)"
    using assms unfolding row_def diff_def
    by (simp add: reportRow_def Let_def gratuityAccrued_def yearsOfService_ms)
  have l: "leaveSalaryAccrued row = 600 * max 0 (of_int diff / 31557600000)"
    unfolding row_def diff_def by (simp add: reportRow_def Let_def yearsOfService_ms)
  have a: "diff = 730 * 86400000 \<longrightarrow> gratuityAmount row = 584000 / 487"
    unfolding g by simp
  have b: "diff = 731 * 86400000 \<longrightarrow> gratuityAmount row = 584800 / 487"
    unfolding g by simp
  show ?thesis
    unfolding Let_def row_def [symmetric] diff_def [symmetric]
    using g l a b labour_amount_1200 [of diff] by simp
qed

text \<open>
  Joined 2021-01-31, a date-only string, read as midnight UTC; month end 2023-01-31.
  With the month end at midnight UTC+4 the difference is 729 days and 20 hours and both
  amounts are 1751600/1461 (about 1198.90); with the month end at midnight UTC-12 it is
  730.5 days and both amounts are 1200.
\<close>

theorem labour_two_years_witness:
  "gratuityAmount (reportRow
        \<lparr> employees = [], attendanceRecords = [], overtimeRecords = [],
          overtimePressRecords = [] \<rparr> 2023 0 31 1675108800000 (\<lambda>s. 1612051200000)
        \<lparr> emp_id = ''E1'', emp_status = ''Active'', employeeType = ''Labour'',
          joiningDate = ''2021-01-31'', basicSalary = 1500, allowance = 0, otherExps = 0,
          advances = None \<rparr>) = 1751600 / 1461
   \<and> leaveSalaryAccrued (reportRow
        \<lparr> employees = [], attendanceRecords = [], overtimeRecords = [],
          overtimePressRecords = [] \<rparr> 2023 0 31 1675108800000 (\<lambda>s. 1612051200000)
        \<lparr> emp_id = ''E1'', emp_status = ''Active'', employeeType = ''Labour'',
          joiningDate = ''2021-01-31'', basicSalary = 1500, allowance = 0, otherExps = 0,
          advances = None \<rparr>) = 1751600 / 1461
   \<and> gratuityAmount (reportRow
        \<lparr> employees = [], attendanceRecords = [], overtimeRecords = [],
          overtimePressRecords = [] \<rparr> 2023 0 31 1675166400000 (\<lambda>s. 1612051200000)
        \<lparr> emp_id = ''E1'', emp_status = ''Active'', employeeType = ''Labour'',
          joiningDate = ''2021-01-31'', basicSalary = 1500, allowance = 0, otherExps = 0,
          advances = None \<rparr>) = 1200
   \<and> leaveSalaryAccrued (reportRow
        \<lparr> employees = [], attendanceRecords = [], overtimeRecords = [],
          overtimePressRecords = [] \<rparr> 2023 0 31 1675166400000 (\<lambda>s. 1612051200000)
        \<lparr> emp_id = ''E1'', emp_status = ''Active'', employeeType = ''Labour'',
          joiningDate = ''2021-01-31'', basicSalary = 1500, allowance = 0, otherExps = 0,
          advances = None \<rparr>) = 1200"
proof -
  let ?l = "\<lparr> emp_id = ''E1'', emp_status = ''Active'', employeeType = ''Labour'',
          joiningDate = ''2021-01-31'', basicSalary = 1500, allowance = 0, otherExps = 0,
          advances = None \<rparr>"
  let ?s = "\<lparr> employees = [], attendanceRecords = [], overtimeRecords = [],
          overtimePressRecords = [] \<rparr>"
  have t: "employeeType ?l = ''Labour''" by simp
  from labour_two_years [OF t, of ?s 2023 0 31 1675108800000 "\<lambda>s. 1612051200000"]
  have a: "gratuityAmount (reportRow ?s 2023 0 31 1675108800000 (\<lambda>s. 1612051200000) ?l)
             = 1751600 / 1461
         \<and> leaveSalaryAccrued (reportRow ?s 2023 0 31 1675108800000 (\<lambda>s. 1612051200000) ?l)
             = 1751600 / 1461"
    by (simp add: Let_def)
  from labour_two_years [OF t, of ?s 2023 0 31 1675166400000 "\<lambda>s. 1612051200000"]
  have b: "gratuityAmount (reportRow ?s 2023 0 31 1675166400000 (\<lambda>s. 1612051200000) ?l) = 1200
         \<and> leaveSalaryAccrued (reportRow ?s 2023 0 31 1675166400000 (\<lambda>s. 1612051200000) ?l)
             = 1200"
    by (simp add: Let_def)
  from a b show ?thesis by simp
qed

text \<open>
  Claim C4 as stated fails: a Labour employee with basicSalary 1500 who joined on
  2021-01-31, exactly two calendar years before the month end 2023-01-31 (730 days, both
  dates at midnight UTC), has a gratuity and a leave salary of 584000/487, not 1200.
\<close>

theorem labour_two_years_counterexample:
  "gratuityAmount (reportRow
        \<lparr> employees = [], attendanceRecords = [], overtimeRecords = [],
          overtimePressRecords = [] \<rparr> 2023 0 31 1675123200000 (\<lambda>s. 1612051200000)
        \<lparr> emp_id = ''E1'', emp_status = ''Active'', employeeType = ''Labour'',
          joiningDate = ''2021-01-31'', basicSalary = 1500, allowance = 0, otherExps = 0,
          advances = None \<rparr>) \<noteq> 1200
   \<and> leaveSalaryAccrued (reportRow
        \<lparr> employees = [], attendanceRecords = [], overtimeRecords = [],
          overtimePressRecords = [] \<rparr> 2023 0 31 1675123200000 (\<lambda>s. 1612051200000)
        \<lparr> emp_id = ''E1'', emp_status = ''Active'', employeeType = ''Labour'',
          joiningDate = ''2021-01-31'', basicSalary = 1500, allowance = 0, otherExps = 0,
          advances = None \<rparr>) \<noteq> 1200"
  by (simp add: reportRow_def Let_def gratuityAccrued_def yearsOfService_def)

section \<open>Properties of the reducer\<close>

subsection \<open>Objects and dispatch\<close>

lemma lookup_update: "lookup (AList.update k v s) k' = (if k' = k then v else lookup s k')"
  by (simp add: lookup_def update_conv')

lemma map_of_objAssign:
  "map_of (objAssign a b) k = (case map_of (rev b) k of Some v \<Rightarrow> Some v | None \<Rightarrow> map_of a k)"
  unfolding objAssign_def
proof (induction b arbitrary: a)
  case Nil
  then show ?case by simp
next
  case (Cons kv b)
  show ?case
    by (cases kv) (auto simp: Cons.IH update_conv' map_add_def split: option.splits)
qed

lemma map_of_rev_distinct: "distinct (map fst b) \<Longrightarrow> map_of (rev b) = map_of b"
  by (rule map_of_inject_set [THEN iffD2]) (simp_all add: distinct_rev rev_map [symmetric])

lemma lookup_objAssign:
  "distinct (map fst b) \<Longrightarrow>
     lookup (objAssign a b) k = (case map_of b k of Some v \<Rightarrow> v | None \<Rightarrow> lookup a k)"
  by (simp add: lookup_def map_of_objAssign map_of_rev_distinct split: option.splits)

lemma distinct_hardResetFields: "distinct (map fst hardResetFields)"
  by code_simp

lemma dataReducer_tagged:
  assumes "getProp action ''type'' = Inr (Str t)"
  shows "dataReducer env state action =
    (case getProp action ''payload'' of
            Inl e \<Rightarrow> Inl e
          | Inr payload \<Rightarrow>
             if t = ''ADD_PLANNER_ENTITY'' then addPlannerEntity state payload
             else if t = ''REMOVE_PLANNER_ENTITY'' then removePlannerEntity state payload
             else if t = ''HARD_RESET_TRANSACTIONS'' then Inr (hardResetTransactions state)
             else if t = ''BATCH_UPDATE''
             then (case arrayMethod payload of
                     Inl e \<Rightarrow> Inl e
                   | Inr actions \<Rightarrow> batchUpdate env state actions)
             else if t = ''ADD_ENTITY'' then addEntity env state payload
             else if t = ''UPDATE_ENTITY'' then updateEntity state payload
             else if t = ''DELETE_ENTITY'' then deleteEntity state payload
             else if t = ''TOGGLE_FAVORITE_COMBINATION''
             then toggleFavoriteCombination env state payload
             else if t = ''SET_PLANNER_DATA'' then setPlannerData state payload
             else if t = ''RESTORE_STATE'' then restoreState state payload
             else Inr state)"
  by (subst dataReducer.simps) (simp add: assms split: sum.splits)

lemma getProp_payload_total: "getProp action ''type'' = Inr t \<Longrightarrow> \<exists>p. getProp action ''payload'' = Inr p"
  by (cases action) simp_all

lemma dataReducer_hard_reset:
  assumes "getProp action ''type'' = Inr (Str ''HARD_RESET_TRANSACTIONS'')"
  shows "dataReducer env state action = Inr (hardResetTransactions state)"
proof -
  from assms obtain p where p: "getProp action ''payload'' = Inr p"
    using getProp_payload_total by blast
  show ?thesis by (simp add: dataReducer_tagged [OF assms] p)
qed

lemma hardReset_lookup:
  "lookup (hardResetTransactions s) k = (case map_of hardResetFields k of Some v \<Rightarrow> v | None \<Rightarrow> lookup s k)"
  by (simp add: hardResetTransactions_def lookup_objAssign distinct_hardResetFields)

lemma hardReset_collections:
  "\<forall>k \<in> set [''salesInvoices'', ''originalPurchases'', ''finishedGoodsPurchases'',
        ''packingMaterialPurchases'', ''journalEntries'', ''productions'', ''originalOpenings'',
        ''ongoingOrders'', ''logisticsEntries'', ''attendanceRecords'', ''salaryPayments'',
        ''hrTasks'', ''hrEnquiries'', ''favoriteCombinations'', ''testEntries'',
        ''depreciationEntries'']. map_of hardResetFields k = Some (Arr [])"
  by code_simp

lemma hardReset_counters:
  "\<forall>k \<in> set [''nextInvoiceNumber'', ''nextOngoingOrderNumber'',
        ''nextFinishedGoodsPurchaseNumber'', ''nextPackingMaterialPurchaseNumber'',
        ''nextLogisticsSNo'', ''nextReceiptVoucherNumber'', ''nextPaymentVoucherNumber'',
        ''nextExpenseVoucherNumber'', ''nextJournalVoucherNumber'', ''nextTestEntryNumber'',
        ''nextHRTaskId'', ''nextHREnquiryId'']. map_of hardResetFields k = Some (Num 1)"
  by code_simp

lemma hardReset_planner:
  "map_of hardResetFields ''plannerData'' = Some (Obj [])
   \<and> map_of hardResetFields ''plannerLastWeeklyReset'' = Some (Str [])
   \<and> map_of hardResetFields ''plannerLastMonthlyReset'' = Some (Str [])"
  by code_simp

lemma hardReset_untouched:
  "\<forall>k \<in> set [''guaranteeCheques'', ''nextGuaranteeChequeSNo'', ''customsDocuments'',
        ''employees'', ''customers'', ''suppliers'', ''items'', ''vehicles'',
        ''banks'', ''divisions'', ''sections'', ''expenseAccounts''].
      k \<notin> set (map fst hardResetFields)"
  by code_simp

lemma initialState_eq: "initialState = getInitialState"
  by code_simp

lemma hardReset_others:
  "k \<notin> set (map fst hardResetFields) \<Longrightarrow> map_of hardResetFields k = None"
  by (simp add: map_of_eq_None_iff)

lemma dataReducer_mkAction:
  "dataReducer env state (mkAction t p) =
     (if t = ''ADD_PLANNER_ENTITY'' then addPlannerEntity state p
      else if t = ''REMOVE_PLANNER_ENTITY'' then removePlannerEntity state p
      else if t = ''HARD_RESET_TRANSACTIONS'' then Inr (hardResetTransactions state)
      else if t = ''BATCH_UPDATE''
      then (case arrayMethod p of Inl e \<Rightarrow> Inl e | Inr actions \<Rightarrow> batchUpdate env state actions)
      else if t = ''ADD_ENTITY'' then addEntity env state p
      else if t = ''UPDATE_ENTITY'' then updateEntity state p
      else if t = ''DELETE_ENTITY'' then deleteEntity state p
      else if t = ''TOGGLE_FAVORITE_COMBINATION'' then toggleFavoriteCombination env state p
      else if t = ''SET_PLANNER_DATA'' then setPlannerData state p
      else if t = ''RESTORE_STATE'' then restoreState state p
      else Inr state)"
proof -
  have t: "getProp (mkAction t p) ''type'' = Inr (Str t)"
    by (simp add: mkAction_def lookup_def)
  have p: "getProp (mkAction t p) ''payload'' = Inr p"
    by (simp add: mkAction_def lookup_def)
  show ?thesis by (simp add: dataReducer_tagged [OF t] p)
qed

lemma dataReducer_addAction:
  "dataReducer env state (addAction k data) =
     addEntity env state (Obj [(''entity'', Str k), (''data'', data)])"
  by (simp add: addAction_def dataReducer_mkAction)

lemma bindE_Inr_right [simp]: "bindE m Inr = m"
  by (simp add: bindE_def split: sum.splits)

lemma bindE_Inr [simp]: "bindE (Inr x) f = f x"
  by (simp add: bindE_def)

lemma bindE_Inl [simp]: "bindE (Inl e) f = Inl e"
  by (simp add: bindE_def)

lemma bumpEntityCounters_absent:
  "k \<notin> set (map fst tbl) \<Longrightarrow>
     foldM (\<lambda>ns ec. if strict_eq (Str k) (Str (fst ec)) then bumpCounter state (snd ec) ns
                     else Inr ns) ns tbl = Inr ns"
  by (induction tbl arbitrary: ns) auto

lemma bumpEntityCounters_table:
  assumes "distinct (map fst tbl)"
  shows "foldM (\<lambda>ns ec. if strict_eq (Str k) (Str (fst ec)) then bumpCounter state (snd ec) ns
                     else Inr ns) ns tbl =
         (case map_of tbl k of None \<Rightarrow> Inr ns | Some c \<Rightarrow> bumpCounter state c ns)"
  using assms
proof (induction tbl arbitrary: ns)
  case Nil
  then show ?case by simp
next
  case (Cons ec tbl)
  obtain e c where ec: "ec = (e, c)" by (cases ec)
  show ?case
  proof (cases "k = e")
    case True
    with Cons.prems ec have "k \<notin> set (map fst tbl)" by simp
    then have "\<And>s'. foldM (\<lambda>ns ec. if strict_eq (Str k) (Str (fst ec))
                 then bumpCounter state (snd ec) ns else Inr ns) s' tbl = Inr s'"
      by (rule bumpEntityCounters_absent)
    with True ec show ?thesis by simp
  next
    case False
    with Cons ec show ?thesis by simp
  qed
qed

lemma distinct_counterOfEntity: "distinct (map fst counterOfEntity)"
  by code_simp

lemma bumpEntityCounters_eq:
  "bumpEntityCounters state (Str k) ns =
     (case map_of counterOfEntity k of None \<Rightarrow> Inr ns | Some c \<Rightarrow> bumpCounter state c ns)"
  unfolding bumpEntityCounters_def
  by (rule bumpEntityCounters_table [OF distinct_counterOfEntity])

lemma bumpCounter_Num:
  "lookup state c = Num n \<Longrightarrow> bumpCounter state c ns = Inr (AList.update c (Num (n + 1)) ns)"
  by (simp add: bumpCounter_def)

lemma counter_not_entity:
  "\<forall>ec \<in> set counterOfEntity. \<forall>ec' \<in> set counterOfEntity. snd ec \<noteq> fst ec'"
  by code_simp

lemma salesInvoices_counter:
  "map_of counterOfEntity ''salesInvoices'' = Some ''nextInvoiceNumber''"
  by code_simp

lemma addEntity_plain:
  assumes "lookup state k = Arr xs" and "k \<noteq> ''journalEntries''"
  shows "addEntity env state (Obj [(''entity'', Str k), (''data'', data)]) =
     (case map_of counterOfEntity k of
        None \<Rightarrow> Inr (AList.update k (Arr (xs @ [data])) state)
      | Some c \<Rightarrow> bumpCounter state c (AList.update k (Arr (xs @ [data])) state))"
  using assms
  by (simp add: addEntity_def lookup_def bumpEntityCounters_eq split: option.splits)

lemma strict_eq_Str [simp]: "strict_eq a (Str v) = (a = Str v)"
  by (cases a) auto

lemma someM_total:
  assumes "\<forall>x \<in> set xs. \<exists>b. p x = Inr b"
  shows "someM p xs = Inr (list_ex (\<lambda>x. p x = Inr True) xs)"
  using assms
proof (induction xs)
  case Nil
  then show ?case by simp
next
  case (Cons x xs)
  then obtain b where b: "p x = Inr b" by auto
  with Cons show ?case by (cases b) simp_all
qed

lemma sameVoucher_Obj:
  assumes "lookup d ''voucherId'' = Str v" and "\<not> nullish je"
  shows "sameVoucher (Obj d) je = Inr (getProp je ''voucherId'' = Inr (Str v))"
  using assms by (cases je) (simp_all add: sameVoucher_def nullish_def)

lemma someM_sameVoucher:
  assumes d: "lookup d ''voucherId'' = Str v" and xs: "\<forall>x \<in> set xs. \<not> nullish x"
  shows "someM (sameVoucher (Obj d)) xs = Inr (hasVoucher v xs)"
proof -
  have "\<forall>x \<in> set xs. \<exists>b. sameVoucher (Obj d) x = Inr b"
    using xs by (simp add: sameVoucher_Obj [OF d])
  then have "someM (sameVoucher (Obj d)) xs = Inr (list_ex (\<lambda>x. sameVoucher (Obj d) x = Inr True) xs)"
    by (rule someM_total)
  also have "list_ex (\<lambda>x. sameVoucher (Obj d) x = Inr True) xs = hasVoucher v xs"
    unfolding hasVoucher_def
    using xs by (induction xs) (simp_all add: sameVoucher_Obj [OF d])
  finally show ?thesis .
qed

lemma bumpVoucherCounter_find:
  assumes "lookup d ''voucherId'' = Str v"
  shows "bumpVoucherCounter env state (Obj d) rows ns =
     (case find (voucherMatch env d) rows of
        None \<Rightarrow> Inr ns
      | Some row \<Rightarrow> bumpCounter state (snd (snd row)) ns)"
  using assms
  by (induction rows) (simp_all add: voucherMatch_def)

lemma find_unique:
  assumes "row \<in> set rows" and "P row" and "\<forall>r \<in> set rows. P r \<longrightarrow> r = row"
  shows "find P rows = Some row"
  using assms
proof (induction rows)
  case Nil
  then show ?case by simp
next
  case (Cons a rows)
  show ?case
  proof (cases "P a")
    case True
    with Cons.prems(3) have "a = row" by auto
    then show ?thesis using True by (simp only: find.simps if_True)
  next
    case False
    with Cons.prems(1,2) have mem: "row \<in> set rows" by auto
    from Cons.prems(3) have "\<forall>r \<in> set rows. P r \<longrightarrow> r = row" by auto
    with Cons.IH mem Cons.prems(2) have "find P rows = Some row" by blast
    then show ?thesis using False by (simp only: find.simps if_False)
  qed
qed

lemma voucher_prefix_length: "\<forall>r \<in> set voucherSeries. length (fst (snd r)) = 3"
  by code_simp

lemma voucher_prefix_inj:
  "\<forall>r \<in> set voucherSeries. \<forall>r' \<in> set voucherSeries. fst (snd r) = fst (snd r') \<longrightarrow> r = r'"
  by code_simp

lemma voucher_prefix_exclusive:
  assumes "row \<in> set voucherSeries" and "row' \<in> set voucherSeries"
      and "startsWith v (fst (snd row))" and "startsWith v (fst (snd row'))"
  shows "row = row'"
proof -
  from assms(1,3) have "take 3 v = fst (snd row)"
    using voucher_prefix_length by (auto simp: startsWith_def)
  moreover from assms(2,4) have "take 3 v = fst (snd row')"
    using voucher_prefix_length by (auto simp: startsWith_def)
  ultimately have "fst (snd row) = fst (snd row')" by simp
  with assms(1,2) voucher_prefix_inj show ?thesis by blast
qed

lemma voucherMatch_unique:
  assumes "row \<in> set voucherSeries" and "row' \<in> set voucherSeries"
      and "voucherMatch env d row" and "voucherMatch env d row'"
  shows "row = row'"
proof -
  from assms(3) obtain v where v: "lookup d ''voucherId'' = Str v" "startsWith v (fst (snd row))"
    unfolding voucherMatch_def by blast
  from assms(4) obtain v' where v': "lookup d ''voucherId'' = Str v'" "startsWith v' (fst (snd row'))"
    unfolding voucherMatch_def by blast
  from v(1) v'(1) have "v' = v" by simp
  with v v' show ?thesis using voucher_prefix_exclusive [OF assms(1,2)] by blast
qed

lemma voucher_counters_distinct:
  "distinct (map (\<lambda>row. snd (snd row)) voucherSeries)
   \<and> (\<forall>row \<in> set voucherSeries. snd (snd row) \<noteq> ''journalEntries'')"
  by code_simp

lemma journalEntries_no_counter: "map_of counterOfEntity ''journalEntries'' = None"
  by code_simp

lemma addEntity_journal:
  assumes je: "lookup state ''journalEntries'' = Arr xs"
      and ok: "\<forall>x \<in> set xs. \<not> nullish x"
      and vid: "lookup entry ''voucherId'' = Str v"
  shows "addEntity env state (Obj [(''entity'', Str ''journalEntries''), (''data'', Obj entry)]) =
    (if hasVoucher v xs
     then Inr (AList.update ''journalEntries'' (Arr (xs @ [Obj entry])) state)
     else (case find (voucherMatch env entry) voucherSeries of
             None \<Rightarrow> Inr (AList.update ''journalEntries'' (Arr (xs @ [Obj entry])) state)
           | Some row \<Rightarrow> bumpCounter state (snd (snd row))
                           (AList.update ''journalEntries'' (Arr (xs @ [Obj entry])) state)))"
  using je
  by (simp add: addEntity_def lookup_def [of "[(''entity'', Str ''journalEntries''), (''data'', Obj entry)]"]
      bumpEntityCounters_eq journalEntries_no_counter someM_sameVoucher [OF vid ok]
      bumpVoucherCounter_find [OF vid])

subsection \<open>Serialization and restore\<close>

lemma convert_serialized: "spec_serialized v (convertUndefinedToNull v)"
proof (induction v rule: convertUndefinedToNull.induct)
  case (1 xs)
  then show ?case by (simp add: list_all2_map2 list.rel_refl_strong)
next
  case (2 ps)
  then show ?case by (simp add: list_all2_map2 list.rel_refl_strong)
qed simp_all

lemma convert_Undefined_iff [simp]: "(convertUndefinedToNull v = Undefined) = (v = Undefined)"
  by (cases v) simp_all

lemma convert_noUndefinedField: "noUndefinedField (convertUndefinedToNull v)"
proof (induction v rule: convertUndefinedToNull.induct)
  case (1 xs)
  then show ?case by (simp add: list_all_iff)
next
  case (2 ps)
  then show ?case by (simp add: list_all_iff)
qed simp_all

lemma convert_clean: "noUndefinedField v \<Longrightarrow> convertUndefinedToNull v = v"
proof (induction v rule: convertUndefinedToNull.induct)
  case (1 xs)
  then show ?case by (simp add: list_all_iff map_idI)
next
  case (2 ps)
  then show ?case by (auto simp: list_all_iff intro!: map_idI)
qed simp_all

lemma serialized_unique: "spec_serialized v w \<Longrightarrow> w = convertUndefinedToNull v"
proof (induction v arbitrary: w rule: convertUndefinedToNull.induct)
  case (1 xs)
  then obtain ys where w: "w = Arr ys" and r: "list_all2 spec_serialized xs ys"
    by (cases w) simp_all
  from r "1.IH" have "ys = map convertUndefinedToNull xs"
    by (induction xs ys rule: list_all2_induct) auto
  with w show ?case by simp
next
  case (2 ps)
  then obtain qs where w: "w = Obj qs"
    and r: "list_all2 (\<lambda>p q. fst p = fst q \<and>
                     (if snd p = Undefined then snd q = Null else spec_serialized (snd p) (snd q))) ps qs"
    by (cases w) simp_all
  from r "2.IH" have "qs = map (\<lambda>kv. (fst kv, if snd kv = Undefined then Null
                              else convertUndefinedToNull (snd kv))) ps"
    by (induction ps qs rule: list_all2_induct) (auto simp: prod_eq_iff)
  with w show ?case by simp
qed simp_all

lemma map_of_keyed: "map_of (map (\<lambda>k. (k, f k)) ks) k = (if k \<in> set ks then Some (f k) else None)"
  by (induction ks) auto

lemma default_keys_restored:
  "list_all (\<lambda>k. k \<in> set (restoreOrKeys @ restoreCounterKeys @ restorePlannerKeys))
     (map fst getInitialState)"
  by code_simp

lemma lookup_restoredFields:
  "lookup (restoredFields ps d) k =
     (if k \<in> set restoreOrKeys then js_or (lookup ps k) (lookup d k)
      else if k \<in> set restoreCounterKeys then js_coalesce (lookup ps k) (lookup d k)
      else if k \<in> set restorePlannerKeys then js_or (lookup ps k) (lookup d k)
      else Undefined)"
  by (simp add: lookup_def restoredFields_def map_of_append map_of_keyed map_add_def)

lemma keys_restoredFields:
  "map fst (restoredFields ps d) = restoreOrKeys @ restoreCounterKeys @ restorePlannerKeys"
  by (simp add: restoredFields_def comp_def)

lemma update_all_Num:
  "list_all (\<lambda>kv. isNum (snd kv)) dict \<Longrightarrow> isNum v
     \<Longrightarrow> list_all (\<lambda>kv. isNum (snd kv)) (AList.update k v dict)"
  by (induction dict) auto

lemma lookup_all_Num:
  "list_all (\<lambda>kv. isNum (snd kv)) dict \<Longrightarrow> isNum (js_or (lookup dict k) (Num 0))"
  by (induction dict) (auto simp: lookup_def js_or_def)

lemma isNum_iff: "isNum v = (\<exists>n. v = Num n)"
  by (cases v) simp_all

lemma isObj_iff: "isObj v = (\<exists>ps. v = Obj ps)"
  by (cases v) simp_all

lemma isDictKey_iff: "isDictKey v = (\<exists>s. v = Str s \<and> s \<notin> set objectPrototypeKeys)"
  by (cases v) simp_all

lemma addProduction_ok:
  assumes d: "list_all (\<lambda>kv. isNum (snd kv)) dict" and p: "isProduction p"
  shows "\<exists>dict'. addProduction dict p = Inr dict' \<and> list_all (\<lambda>kv. isNum (snd kv)) dict'"
proof -
  from p obtain ps where ps: "p = Obj ps" by (cases p) simp_all
  with p obtain k q where k: "lookup ps ''itemId'' = Str k" "k \<notin> set objectPrototypeKeys"
    and q: "lookup ps ''quantityProduced'' = Num q"
    by (auto simp: isDictKey_iff isNum_iff)
  from lookup_all_Num [OF d] obtain n where n: "js_or (lookup dict k) (Num 0) = Num n"
    by (auto simp: isNum_iff)
  have "addProduction dict p = Inr (AList.update k (Num (n + q)) dict)"
    using ps k q n by (simp add: addProduction_def)
  moreover have "list_all (\<lambda>kv. isNum (snd kv)) (AList.update k (Num (n + q)) dict)"
    using d by (simp add: update_all_Num)
  ultimately show ?thesis by blast
qed

lemma foldM_addProduction_ok:
  assumes "list_all (\<lambda>kv. isNum (snd kv)) dict" and "list_all isProduction xs"
  shows "\<exists>dict'. foldM addProduction dict xs = Inr dict' \<and> list_all (\<lambda>kv. isNum (snd kv)) dict'"
  using assms
proof (induction xs arbitrary: dict)
  case Nil
  then show ?case by simp
next
  case (Cons x xs)
  from Cons.prems have x: "isProduction x" and xs: "list_all isProduction xs" by simp_all
  from addProduction_ok [OF Cons.prems(1) x] obtain d1 where d1: "addProduction dict x = Inr d1"
    "list_all (\<lambda>kv. isNum (snd kv)) d1"
    by blast
  from Cons.IH [OF d1(2) xs] d1(1) show ?case by simp
qed

lemma withNextBaleNumber_ok:
  assumes d: "list_all (\<lambda>kv. isNum (snd kv)) dict" and i: "isItem item"
  shows "\<exists>ps'. withNextBaleNumber dict item = Inr (Obj ps') \<and> isItem (Obj ps')"
proof -
  from i obtain ps where ps: "item = Obj ps" by (cases item) simp_all
  with i obtain k where k: "lookup ps ''id'' = Str k" "k \<notin> set objectPrototypeKeys"
    by (auto simp: isDictKey_iff)
  from lookup_all_Num [OF d] obtain t where t: "js_or (lookup dict k) (Num 0) = Num t"
    by (auto simp: isNum_iff)
  from i ps have "\<exists>o'. js_or (lookup ps ''openingStock'') (Num 0) = Num o'"
    by (cases "lookup ps ''openingStock''") (auto simp: js_or_def)
  then obtain o' where o': "js_or (lookup ps ''openingStock'') (Num 0) = Num o'" ..
  have r: "withNextBaleNumber dict item
        = Inr (Obj (AList.update ''nextBaleNumber'' (Num (o' + t + 1)) ps))"
    using ps k t o' by (simp add: withNextBaleNumber_def)
  have "isItem (Obj (AList.update ''nextBaleNumber'' (Num (o' + t + 1)) ps))"
    using i ps by (simp add: lookup_update)
  with r show ?thesis by blast
qed

lemma mapM_withNextBaleNumber_ok:
  assumes "list_all (\<lambda>kv. isNum (snd kv)) dict" and "list_all isItem xs"
  shows "\<exists>ys. mapM (withNextBaleNumber dict) xs = Inr ys \<and> list_all isItem ys
              \<and> length ys = length xs"
  using assms(2)
proof (induction xs)
  case Nil
  then show ?case by simp
next
  case (Cons x xs)
  then obtain ys where ys: "mapM (withNextBaleNumber dict) xs = Inr ys" "list_all isItem ys"
      "length ys = length xs"
    by auto
  from Cons.prems have "isItem x" by simp
  from withNextBaleNumber_ok [OF assms(1) this]
  obtain ps' where p: "withNextBaleNumber dict x = Inr (Obj ps')" "isItem (Obj ps')"
    by blast
  from ys p show ?case by simp
qed

lemma processState_ok:
  assumes "lookup st ''productions'' = Arr prods" and "list_all isProduction prods"
      and "lookup st ''items'' = Arr its" and "list_all isItem its"
  shows "\<exists>items. processState st = Inr (AList.update ''items'' (Arr items) st)
                \<and> list_all isItem items \<and> length items = length its"
proof -
  have "list_all (\<lambda>kv. isNum (snd kv)) ([] :: obj)" by simp
  from foldM_addProduction_ok [OF this assms(2)]
  obtain dict where dict: "foldM addProduction [] prods = Inr dict"
      "list_all (\<lambda>kv. isNum (snd kv)) dict"
    by blast
  from mapM_withNextBaleNumber_ok [OF dict(2) assms(4)]
  obtain ys where ys: "mapM (withNextBaleNumber dict) its = Inr ys" "list_all isItem ys"
      "length ys = length its"
    by blast
  have "processState st = Inr (AList.update ''items'' (Arr ys) st)"
    using assms(1,3) dict(1) ys(1) by (simp add: processState_def)
  with ys show ?thesis by blast
qed

lemma falsyOrArrayOf_or:
  "falsyOrArrayOf P v \<Longrightarrow> \<exists>xs. js_or v (Arr []) = Arr xs \<and> list_all P xs"
  by (cases v) (auto simp: js_or_def)

lemma default_collections:
  "lookup getInitialState ''productions'' = Arr [] \<and> lookup getInitialState ''items'' = Arr []"
  by code_simp

lemma items_productions_keys:
  "''productions'' \<in> set restoreOrKeys \<and> ''items'' \<in> set restoreOrKeys"
  by (simp add: restoreOrKeys_def)

lemma default_values_not_nullish: "list_all (\<lambda>kv. \<not> nullish (snd kv)) getInitialState"
  by code_simp

lemma default_not_nullish:
  assumes "k \<in> set (map fst getInitialState)"
  shows "\<not> nullish (lookup getInitialState k)"
proof -
  from assms obtain v where "map_of getInitialState k = Some v"
    by (metis map_of_eq_None_iff not_Some_eq set_map)
  moreover from this have "(k, v) \<in> set getInitialState" by (rule map_of_SomeD)
  ultimately show ?thesis
    using default_values_not_nullish by (auto simp: lookup_def list_all_iff)
qed

lemma restored_productions:
  "lookup (restoredFields ps getInitialState) ''productions''
     = js_or (lookup ps ''productions'') (Arr [])"
  using items_productions_keys default_collections by (simp add: lookup_restoredFields)

lemma restored_items:
  "lookup (restoredFields ps getInitialState) ''items'' = js_or (lookup ps ''items'') (Arr [])"
  using items_productions_keys default_collections by (simp add: lookup_restoredFields)

lemma restoreState_valid:
  assumes valid: "validAggregate (Obj ps)"
      and prods: "falsyOrArrayOf isProduction (lookup ps ''productions'')"
      and items: "falsyOrArrayOf isItem (lookup ps ''items'')"
  shows "\<exists>its. restoreState state (Obj ps)
            = Inr (AList.update ''items'' (Arr its) (restoredFields ps getInitialState))
         \<and> list_all isItem its
         \<and> (\<not> truthy (lookup ps ''items'') \<longrightarrow> its = [])"
proof -
  let ?ns = "restoredFields ps getInitialState"
  from falsyOrArrayOf_or [OF prods] obtain xs where
    xs: "js_or (lookup ps ''productions'') (Arr []) = Arr xs" "list_all isProduction xs" by blast
  from falsyOrArrayOf_or [OF items] obtain its0 where
    its0: "js_or (lookup ps ''items'') (Arr []) = Arr its0" "list_all isItem its0" by blast
  have lp: "lookup ?ns ''productions'' = Arr xs"
    using xs(1) by (simp only: restored_productions)
  have li: "lookup ?ns ''items'' = Arr its0"
    using its0(1) by (simp only: restored_items)
  from processState_ok [OF lp xs(2) li its0(2)]
  obtain its where its: "processState ?ns = Inr (AList.update ''items'' (Arr its) ?ns)"
     "list_all isItem its" "length its = length its0"
    by blast
  have "\<not> truthy (lookup ps ''items'') \<Longrightarrow> its = []"
    using its0(1) its(3) by (simp add: js_or_def)
  moreover have "restoreState state (Obj ps) = processState ?ns"
    using valid by (simp add: restoreState_def)
  ultimately show ?thesis using its by auto
qed

lemma truthy_not_nullish: "truthy v \<Longrightarrow> \<not> nullish v"
  by (cases v) (simp_all add: nullish_def)

lemma nullish_not_truthy: "nullish v \<Longrightarrow> \<not> truthy v"
  by (auto simp: nullish_def)

lemma default_key_cases:
  assumes "k \<in> set (map fst getInitialState)"
  shows "k \<in> set restoreOrKeys \<or> k \<in> set restoreCounterKeys \<or> k \<in> set restorePlannerKeys"
  using assms default_keys_restored by (auto simp: list_all_iff)

lemma restored_default_key:
  assumes k: "k \<in> set (map fst getInitialState)"
  shows "\<not> nullish (lookup (restoredFields ps getInitialState) k)
       \<and> (nullish (lookup ps k) \<longrightarrow>
            lookup (restoredFields ps getInitialState) k = lookup getInitialState k)
       \<and> (truthy (lookup ps k) \<longrightarrow> lookup (restoredFields ps getInitialState) k = lookup ps k)"
  using default_key_cases [OF k] default_not_nullish [OF k]
  by (auto simp: lookup_restoredFields js_or_def js_coalesce_def
      dest: truthy_not_nullish nullish_not_truthy)

subsection \<open>Actions the reducer passes over, and one it cannot run\<close>

lemma validAggregate_iff: "validAggregate p = (isObj p \<and> hasProp ''customers'' p)"
  by (cases p) (simp_all add: validAggregate_def)

lemma restoreState_invalid: "\<not> validAggregate p \<Longrightarrow> restoreState s p = Inr s"
  by (simp add: restoreState_def)

lemma dataReducer_unknown:
  assumes "getProp action ''type'' = Inr tag" and "tag \<notin> Str ` set handledTags"
  shows "dataReducer env state action = Inr state"
proof -
  from assms(1) obtain p where p: "getProp action ''payload'' = Inr p"
    using getProp_payload_total by blast
  from assms(2) have "tag \<noteq> Str ''ADD_PLANNER_ENTITY''" "tag \<noteq> Str ''REMOVE_PLANNER_ENTITY''"
    "tag \<noteq> Str ''HARD_RESET_TRANSACTIONS''" "tag \<noteq> Str ''BATCH_UPDATE''"
    "tag \<noteq> Str ''ADD_ENTITY''" "tag \<noteq> Str ''UPDATE_ENTITY''" "tag \<noteq> Str ''DELETE_ENTITY''"
    "tag \<noteq> Str ''TOGGLE_FAVORITE_COMBINATION''" "tag \<noteq> Str ''SET_PLANNER_DATA''"
    "tag \<noteq> Str ''RESTORE_STATE''"
    by (auto simp: handledTags_def)
  then show ?thesis
    by (subst dataReducer.simps) (simp add: assms(1) p)
qed

lemma dataReducer_restore_invalid:
  assumes "getProp action ''type'' = Inr (Str ''RESTORE_STATE'')"
      and "getProp action ''payload'' = Inr p"
      and "\<not> isObj p \<or> \<not> hasProp ''customers'' p"
  shows "dataReducer env state action = Inr state"
  using assms(3)
  by (simp add: dataReducer_tagged [OF assms(1)] assms(2) restoreState_invalid validAggregate_iff)


subsection \<open>The snapshot listener\<close>






subsection \<open>\<^verbatim>\<open>HARD_RESET_TRANSACTIONS\<close>\<close>

lemma hardReset_keys:
  "map fst hardResetFields =
       [''salesInvoices'', ''originalPurchases'', ''finishedGoodsPurchases'',
        ''packingMaterialPurchases'', ''journalEntries'', ''productions'',
        ''originalOpenings'', ''ongoingOrders'', ''logisticsEntries'', ''attendanceRecords'',
        ''salaryPayments'', ''hrTasks'', ''hrEnquiries'', ''favoriteCombinations'',
        ''testEntries'', ''depreciationEntries'', ''nextInvoiceNumber'',
        ''nextOngoingOrderNumber'', ''nextFinishedGoodsPurchaseNumber'',
        ''nextPackingMaterialPurchaseNumber'', ''nextLogisticsSNo'',
        ''nextReceiptVoucherNumber'', ''nextPaymentVoucherNumber'',
        ''nextExpenseVoucherNumber'', ''nextJournalVoucherNumber'', ''nextTestEntryNumber'',
        ''nextHRTaskId'', ''nextHREnquiryId'', ''plannerData'', ''plannerLastWeeklyReset'',
        ''plannerLastMonthlyReset'']"
  by (simp add: hardResetFields_def)

lemma hardReset_kept_raw:
  "list_all (\<lambda>k. \<not> List.member (map fst hardResetFields) k)
       [''customers'', ''suppliers'', ''vendors'', ''subSuppliers'', ''employees'',
        ''banks'', ''cashAccounts'', ''originalTypes'', ''originalProducts'', ''divisions'',
        ''subDivisions'', ''warehouses'', ''sections'', ''categories'', ''items'', ''logos'',
        ''assetTypes'', ''commissionAgents'', ''freightForwarders'', ''clearingAgents'',
        ''loanAccounts'', ''capitalAccounts'', ''investmentAccounts'', ''expenseAccounts'',
        ''inventoryAccounts'', ''packingMaterialInventoryAccounts'', ''fixedAssetAccounts'',
        ''accumulatedDepreciationAccounts'', ''receivableAccounts'', ''revenueAccounts'',
        ''payableAccounts'', ''vehicles'', ''fixedAssets'', ''packingMaterialItems'',
        ''guaranteeCheques'', ''customsDocuments'', ''nextGuaranteeChequeSNo'',
        ''plannerCustomerIds'', ''plannerSupplierIds'', ''plannerExpenseAccountIds'']"
  by code_simp

lemma hardReset_kept:
  "\<forall>k \<in> set
       [''customers'', ''suppliers'', ''vendors'', ''subSuppliers'', ''employees'',
        ''banks'', ''cashAccounts'', ''originalTypes'', ''originalProducts'', ''divisions'',
        ''subDivisions'', ''warehouses'', ''sections'', ''categories'', ''items'', ''logos'',
        ''assetTypes'', ''commissionAgents'', ''freightForwarders'', ''clearingAgents'',
        ''loanAccounts'', ''capitalAccounts'', ''investmentAccounts'', ''expenseAccounts'',
        ''inventoryAccounts'', ''packingMaterialInventoryAccounts'', ''fixedAssetAccounts'',
        ''accumulatedDepreciationAccounts'', ''receivableAccounts'', ''revenueAccounts'',
        ''payableAccounts'', ''vehicles'', ''fixedAssets'', ''packingMaterialItems'',
        ''guaranteeCheques'', ''customsDocuments'', ''nextGuaranteeChequeSNo'',
        ''plannerCustomerIds'', ''plannerSupplierIds'', ''plannerExpenseAccountIds''].
     k \<notin> set (map fst hardResetFields)"
  using hardReset_kept_raw by (simp add: list_all_iff)

text \<open>
  Claim C9, as the code has it. For every state, \<^verbatim>\<open>HARD_RESET_TRANSACTIONS\<close> returns a
  state in which the sixteen collections salesInvoices, originalPurchases,
  finishedGoodsPurchases, packingMaterialPurchases, journalEntries, productions,
  originalOpenings, ongoingOrders, logisticsEntries, attendanceRecords, salaryPayments,
  hrTasks, hrEnquiries, favoriteCombinations, testEntries and depreciationEntries are empty,
  the twelve counters listed are 1, and the planner data and its two reset stamps are
  empty. Every property of the state other than these thirty-one is unchanged: all the
  master data, named below key by key, and also guaranteeCheques, its counter
  nextGuaranteeChequeSNo, and customsDocuments.
\<close>

theorem hard_reset_frame:
  assumes "getProp action ''type'' = Inr (Str ''HARD_RESET_TRANSACTIONS'')"
  shows "\<exists>s'. dataReducer env state action = Inr s'
    \<and> (\<forall>k \<in> set [''salesInvoices'', ''originalPurchases'', ''finishedGoodsPurchases'',
        ''packingMaterialPurchases'', ''journalEntries'', ''productions'', ''originalOpenings'',
        ''ongoingOrders'', ''logisticsEntries'', ''attendanceRecords'', ''salaryPayments'',
        ''hrTasks'', ''hrEnquiries'', ''favoriteCombinations'', ''testEntries'',
        ''depreciationEntries'']. lookup s' k = Arr [])
    \<and> (\<forall>k \<in> set [''nextInvoiceNumber'', ''nextOngoingOrderNumber'',
        ''nextFinishedGoodsPurchaseNumber'', ''nextPackingMaterialPurchaseNumber'',
        ''nextLogisticsSNo'', ''nextReceiptVoucherNumber'', ''nextPaymentVoucherNumber'',
        ''nextExpenseVoucherNumber'', ''nextJournalVoucherNumber'', ''nextTestEntryNumber'',
        ''nextHRTaskId'', ''nextHREnquiryId'']. lookup s' k = Num 1)
    \<and> lookup s' ''plannerData'' = Obj []
    \<and> lookup s' ''plannerLastWeeklyReset'' = Str []
    \<and> lookup s' ''plannerLastMonthlyReset'' = Str []
    \<and> (\<forall>k. k \<notin> set
       [''salesInvoices'', ''originalPurchases'', ''finishedGoodsPurchases'',
        ''packingMaterialPurchases'', ''journalEntries'', ''productions'',
        ''originalOpenings'', ''ongoingOrders'', ''logisticsEntries'', ''attendanceRecords'',
        ''salaryPayments'', ''hrTasks'', ''hrEnquiries'', ''favoriteCombinations'',
        ''testEntries'', ''depreciationEntries'', ''nextInvoiceNumber'',
        ''nextOngoingOrderNumber'', ''nextFinishedGoodsPurchaseNumber'',
        ''nextPackingMaterialPurchaseNumber'', ''nextLogisticsSNo'',
        ''nextReceiptVoucherNumber'', ''nextPaymentVoucherNumber'',
        ''nextExpenseVoucherNumber'', ''nextJournalVoucherNumber'', ''nextTestEntryNumber'',
        ''nextHRTaskId'', ''nextHREnquiryId'', ''plannerData'', ''plannerLastWeeklyReset'',
        ''plannerLastMonthlyReset'']
         \<longrightarrow> lookup s' k = lookup state k)
    \<and> lookup s' ''guaranteeCheques'' = lookup state ''guaranteeCheques''
    \<and> lookup s' ''nextGuaranteeChequeSNo'' = lookup state ''nextGuaranteeChequeSNo''
    \<and> lookup s' ''customsDocuments'' = lookup state ''customsDocuments''
    \<and> (\<forall>k \<in> set
       [''customers'', ''suppliers'', ''vendors'', ''subSuppliers'', ''employees'',
        ''banks'', ''cashAccounts'', ''originalTypes'', ''originalProducts'', ''divisions'',
        ''subDivisions'', ''warehouses'', ''sections'', ''categories'', ''items'', ''logos'',
        ''assetTypes'', ''commissionAgents'', ''freightForwarders'', ''clearingAgents'',
        ''loanAccounts'', ''capitalAccounts'', ''investmentAccounts'', ''expenseAccounts'',
        ''inventoryAccounts'', ''packingMaterialInventoryAccounts'', ''fixedAssetAccounts'',
        ''accumulatedDepreciationAccounts'', ''receivableAccounts'', ''revenueAccounts'',
        ''payableAccounts'', ''vehicles'', ''fixedAssets'', ''packingMaterialItems'',
        ''guaranteeCheques'', ''customsDocuments'', ''nextGuaranteeChequeSNo'',
        ''plannerCustomerIds'', ''plannerSupplierIds'', ''plannerExpenseAccountIds''].
          lookup s' k = lookup state k)"
proof -
  let ?s = "hardResetTransactions state"
  have r: "dataReducer env state action = Inr ?s"
    by (rule dataReducer_hard_reset [OF assms])
  have c: "\<forall>k \<in> set [''salesInvoices'', ''originalPurchases'', ''finishedGoodsPurchases'',
        ''packingMaterialPurchases'', ''journalEntries'', ''productions'', ''originalOpenings'',
        ''ongoingOrders'', ''logisticsEntries'', ''attendanceRecords'', ''salaryPayments'',
        ''hrTasks'', ''hrEnquiries'', ''favoriteCombinations'', ''testEntries'',
        ''depreciationEntries'']. lookup ?s k = Arr []"
    using hardReset_collections by (simp add: hardReset_lookup)
  have n: "\<forall>k \<in> set [''nextInvoiceNumber'', ''nextOngoingOrderNumber'',
        ''nextFinishedGoodsPurchaseNumber'', ''nextPackingMaterialPurchaseNumber'',
        ''nextLogisticsSNo'', ''nextReceiptVoucherNumber'', ''nextPaymentVoucherNumber'',
        ''nextExpenseVoucherNumber'', ''nextJournalVoucherNumber'', ''nextTestEntryNumber'',
        ''nextHRTaskId'', ''nextHREnquiryId'']. lookup ?s k = Num 1"
    using hardReset_counters by (simp add: hardReset_lookup)
  have p: "lookup ?s ''plannerData'' = Obj [] \<and> lookup ?s ''plannerLastWeeklyReset'' = Str []
      \<and> lookup ?s ''plannerLastMonthlyReset'' = Str []"
    using hardReset_planner by (simp add: hardReset_lookup)
  have o: "\<forall>k. k \<notin> set (map fst hardResetFields) \<longrightarrow> lookup ?s k = lookup state k"
    by (simp add: hardReset_lookup hardReset_others)
  have m: "\<forall>k \<in> set
       [''customers'', ''suppliers'', ''vendors'', ''subSuppliers'', ''employees'',
        ''banks'', ''cashAccounts'', ''originalTypes'', ''originalProducts'', ''divisions'',
        ''subDivisions'', ''warehouses'', ''sections'', ''categories'', ''items'', ''logos'',
        ''assetTypes'', ''commissionAgents'', ''freightForwarders'', ''clearingAgents'',
        ''loanAccounts'', ''capitalAccounts'', ''investmentAccounts'', ''expenseAccounts'',
        ''inventoryAccounts'', ''packingMaterialInventoryAccounts'', ''fixedAssetAccounts'',
        ''accumulatedDepreciationAccounts'', ''receivableAccounts'', ''revenueAccounts'',
        ''payableAccounts'', ''vehicles'', ''fixedAssets'', ''packingMaterialItems'',
        ''guaranteeCheques'', ''customsDocuments'', ''nextGuaranteeChequeSNo'',
        ''plannerCustomerIds'', ''plannerSupplierIds'', ''plannerExpenseAccountIds''].
          lookup ?s k = lookup state k"
    using hardReset_kept o by blast
  then have g: "lookup ?s ''guaranteeCheques'' = lookup state ''guaranteeCheques''
      \<and> lookup ?s ''nextGuaranteeChequeSNo'' = lookup state ''nextGuaranteeChequeSNo''
      \<and> lookup ?s ''customsDocuments'' = lookup state ''customsDocuments''"
    by simp
  from r c n p o [unfolded hardReset_keys] m g show ?thesis by blast
qed

text \<open>A state with one employee, one vendor, one sales invoice and one guarantee cheque.\<close>

theorem hard_reset_frame_witness:
  "\<exists>s'. dataReducer exampleEnv
           [(''employees'', Arr [Obj [(''id'', Str ''E1'')]]),
            (''vendors'', Arr [Obj [(''id'', Str ''V1'')]]),
            (''salesInvoices'', Arr [Obj [(''id'', Str ''INV-1'')]]),
            (''nextInvoiceNumber'', Num 2),
            (''guaranteeCheques'', Arr [Obj [(''id'', Str ''GC-1'')]]),
            (''nextGuaranteeChequeSNo'', Num 2)]
           (Obj [(''type'', Str ''HARD_RESET_TRANSACTIONS'')]) = Inr s'
     \<and> lookup s' ''salesInvoices'' = Arr []
     \<and> lookup s' ''nextInvoiceNumber'' = Num 1
     \<and> lookup s' ''employees'' = Arr [Obj [(''id'', Str ''E1'')]]
     \<and> lookup s' ''vendors'' = Arr [Obj [(''id'', Str ''V1'')]]
     \<and> lookup s' ''guaranteeCheques'' = Arr [Obj [(''id'', Str ''GC-1'')]]
     \<and> lookup s' ''nextGuaranteeChequeSNo'' = Num 2"
proof -
  let ?st = "[(''employees'', Arr [Obj [(''id'', Str ''E1'')]]),
            (''vendors'', Arr [Obj [(''id'', Str ''V1'')]]),
            (''salesInvoices'', Arr [Obj [(''id'', Str ''INV-1'')]]),
            (''nextInvoiceNumber'', Num 2),
            (''guaranteeCheques'', Arr [Obj [(''id'', Str ''GC-1'')]]),
            (''nextGuaranteeChequeSNo'', Num 2)]"
  have t: "getProp (Obj [(''type'', Str ''HARD_RESET_TRANSACTIONS'')]) ''type''
             = Inr (Str ''HARD_RESET_TRANSACTIONS'')"
    by code_simp
  have e: "lookup ?st ''employees'' = Arr [Obj [(''id'', Str ''E1'')]]
         \<and> lookup ?st ''vendors'' = Arr [Obj [(''id'', Str ''V1'')]]
         \<and> lookup ?st ''guaranteeCheques'' = Arr [Obj [(''id'', Str ''GC-1'')]]
         \<and> lookup ?st ''nextGuaranteeChequeSNo'' = Num 2"
    by code_simp
  from hard_reset_frame [OF t, of exampleEnv ?st] e
  show ?thesis by auto
qed

text \<open>
  Claim C9 as stated fails for guarantee cheques and their counter: after one guarantee
  cheque is added to the initial state, the collection holds it and the counter is 2; after
  the hard reset the collection still holds it and the counter is still 2.
\<close>

theorem hard_reset_counterexample:
  "bindE (dataReducer exampleEnv initialState
            (addAction ''guaranteeCheques'' (Obj [(''id'', Str ''GC-1'')])))
     (\<lambda>s1. bindE (dataReducer exampleEnv s1 (Obj [(''type'', Str ''HARD_RESET_TRANSACTIONS'')]))
     (\<lambda>s2. Inr (lookup s1 ''guaranteeCheques'', lookup s1 ''nextGuaranteeChequeSNo'',
                 lookup s2 ''guaranteeCheques'', lookup s2 ''nextGuaranteeChequeSNo'')))
   = Inr (Arr [Obj [(''id'', Str ''GC-1'')]], Num 2, Arr [Obj [(''id'', Str ''GC-1'')]], Num 2)"
proof -
  let ?gc = "Obj [(''id'', Str ''GC-1'')]"
  let ?s1 = "AList.update ''nextGuaranteeChequeSNo'' (Num (1 + 1))
               (AList.update ''guaranteeCheques'' (Arr ([] @ [?gc])) initialState)"
  have a: "lookup initialState ''guaranteeCheques'' = Arr []" by code_simp
  have n: "lookup initialState ''nextGuaranteeChequeSNo'' = Num 1" by code_simp
  have c: "map_of counterOfEntity ''guaranteeCheques'' = Some ''nextGuaranteeChequeSNo''"
    by code_simp
  have j: "''guaranteeCheques'' \<noteq> ''journalEntries''" by simp
  have r1: "dataReducer exampleEnv initialState (addAction ''guaranteeCheques'' ?gc) = Inr ?s1"
    by (simp add: dataReducer_addAction addEntity_plain [OF a j] c bumpCounter_Num [OF n])
  have t: "getProp (Obj [(''type'', Str ''HARD_RESET_TRANSACTIONS'')]) ''type''
             = Inr (Str ''HARD_RESET_TRANSACTIONS'')"
    by code_simp
  have r2: "dataReducer exampleEnv ?s1 (Obj [(''type'', Str ''HARD_RESET_TRANSACTIONS'')])
              = Inr (hardResetTransactions ?s1)"
    by (rule dataReducer_hard_reset [OF t])
  have u: "map_of hardResetFields ''guaranteeCheques'' = None
         \<and> map_of hardResetFields ''nextGuaranteeChequeSNo'' = None"
    by code_simp
  have l: "lookup ?s1 ''guaranteeCheques'' = Arr [?gc] \<and> lookup ?s1 ''nextGuaranteeChequeSNo'' = Num 2"
    by (simp add: lookup_update)
  have h: "lookup (hardResetTransactions ?s1) ''guaranteeCheques'' = Arr [?gc]
         \<and> lookup (hardResetTransactions ?s1) ''nextGuaranteeChequeSNo'' = Num 2"
    using u l by (simp add: hardReset_lookup)
  show ?thesis
    unfolding r1 r2 bindE_Inr using l h by simp
qed

subsection \<open>\<^verbatim>\<open>ADD_ENTITY\<close> on a collection other than journalEntries\<close>

text \<open>
  Claim C10. \<^verbatim>\<open>ADD_ENTITY\<close> appends its payload record to the target collection
  whatever the collection holds, so also when it holds a record with the same id, or the
  same record: adding it and adding it again gives the collection followed by two copies.
  For an entity with a counter in \<open>counterOfEntity\<close> (salesInvoices with
  nextInvoiceNumber, and the eight others) the counter is incremented by the first add and
  again by the replay. The target collection is an array and the entity's counter, if it
  has one, a number; journalEntries have their own theorem.
\<close>

theorem add_entity_appends:
  assumes arr: "lookup state entity = Arr xs"
      and nj: "entity \<noteq> ''journalEntries''"
      and num: "\<forall>c. (entity, c) \<in> set counterOfEntity \<longrightarrow> (\<exists>n. lookup state c = Num n)"
  shows "\<exists>s1 s2. dataReducer env state (addAction entity data) = Inr s1
           \<and> dataReducer env s1 (addAction entity data) = Inr s2
           \<and> lookup s1 entity = Arr (xs @ [data])
           \<and> lookup s2 entity = Arr (xs @ [data, data])
           \<and> (\<forall>c n. (entity, c) \<in> set counterOfEntity \<and> lookup state c = Num n
                 \<longrightarrow> lookup s1 c = Num (n + 1) \<and> lookup s2 c = Num (n + 2))
           \<and> (entity = ''salesInvoices'' \<longrightarrow>
                (\<forall>n. lookup state ''nextInvoiceNumber'' = Num n
                  \<longrightarrow> lookup s1 ''nextInvoiceNumber'' = Num (n + 1)
                    \<and> lookup s2 ''nextInvoiceNumber'' = Num (n + 2)))"
proof (cases "map_of counterOfEntity entity")
  case None
  let ?s1 = "AList.update entity (Arr (xs @ [data])) state"
  let ?s2 = "AList.update entity (Arr (xs @ [data, data])) ?s1"
  have r1: "dataReducer env state (addAction entity data) = Inr ?s1"
    by (simp add: dataReducer_addAction addEntity_plain [OF arr nj] None)
  have l1: "lookup ?s1 entity = Arr (xs @ [data])" by (simp add: lookup_update)
  have r2: "dataReducer env ?s1 (addAction entity data) = Inr ?s2"
    by (simp add: dataReducer_addAction addEntity_plain [OF l1 nj] None)
  have no: "\<And>c. (entity, c) \<notin> set counterOfEntity"
    using None by (metis map_of_eq_None_iff image_eqI fst_conv)
  have nsi: "entity \<noteq> ''salesInvoices''"
    using None salesInvoices_counter by auto
  have l2: "lookup ?s2 entity = Arr (xs @ [data, data])" by (simp add: lookup_update)
  from r1 r2 l1 l2 no nsi show ?thesis by blast
next
  case (Some c)
  then have mem: "(entity, c) \<in> set counterOfEntity" by (rule map_of_SomeD)
  with num obtain n where n: "lookup state c = Num n" by blast
  from mem counter_not_entity have ce: "c \<noteq> entity" by fastforce
  let ?s1 = "AList.update c (Num (n + 1)) (AList.update entity (Arr (xs @ [data])) state)"
  let ?s2 = "AList.update c (Num (n + 1 + 1)) (AList.update entity (Arr (xs @ [data, data])) ?s1)"
  have r1: "dataReducer env state (addAction entity data) = Inr ?s1"
    by (simp add: dataReducer_addAction addEntity_plain [OF arr nj] Some bumpCounter_Num [OF n])
  have l1: "lookup ?s1 entity = Arr (xs @ [data])" using ce by (simp add: lookup_update)
  have n1: "lookup ?s1 c = Num (n + 1)" by (simp add: lookup_update)
  have r2: "dataReducer env ?s1 (addAction entity data) = Inr ?s2"
    by (simp add: dataReducer_addAction addEntity_plain [OF l1 nj] Some bumpCounter_Num [OF n1])
  have uniq: "\<And>c'. (entity, c') \<in> set counterOfEntity \<Longrightarrow> c' = c"
    using Some distinct_counterOfEntity by (metis map_of_is_SomeI option.inject)
  have si: "entity = ''salesInvoices'' \<Longrightarrow> c = ''nextInvoiceNumber''"
    using Some salesInvoices_counter by auto
  have l2: "lookup ?s2 entity = Arr (xs @ [data, data])" using ce by (simp add: lookup_update)
  have n2: "lookup ?s2 c = Num (n + 2)" by (simp add: lookup_update)
  have cnt: "\<forall>c' m. (entity, c') \<in> set counterOfEntity \<and> lookup state c' = Num m
                 \<longrightarrow> lookup ?s1 c' = Num (m + 1) \<and> lookup ?s2 c' = Num (m + 2)"
    using uniq n n1 n2 by auto
  have sal: "entity = ''salesInvoices'' \<longrightarrow>
                (\<forall>m. lookup state ''nextInvoiceNumber'' = Num m
                  \<longrightarrow> lookup ?s1 ''nextInvoiceNumber'' = Num (m + 1)
                    \<and> lookup ?s2 ''nextInvoiceNumber'' = Num (m + 2))"
    using si n n1 n2 by auto
  from r1 r2 l1 l2 cnt sal show ?thesis by blast
qed

text \<open>A sales invoice added to a state that holds the same invoice, twice.\<close>

theorem add_entity_appends_witness:
  "\<exists>s1 s2. dataReducer exampleEnv
              [(''salesInvoices'', Arr [Obj [(''id'', Str ''INV-1'')]]), (''nextInvoiceNumber'', Num 2)]
              (addAction ''salesInvoices'' (Obj [(''id'', Str ''INV-1'')])) = Inr s1
      \<and> dataReducer exampleEnv s1 (addAction ''salesInvoices'' (Obj [(''id'', Str ''INV-1'')])) = Inr s2
      \<and> lookup s1 ''salesInvoices'' = Arr [Obj [(''id'', Str ''INV-1'')], Obj [(''id'', Str ''INV-1'')]]
      \<and> lookup s2 ''salesInvoices'' = Arr [Obj [(''id'', Str ''INV-1'')], Obj [(''id'', Str ''INV-1'')],
                                          Obj [(''id'', Str ''INV-1'')]]
      \<and> lookup s1 ''nextInvoiceNumber'' = Num 3
      \<and> lookup s2 ''nextInvoiceNumber'' = Num 4"
proof -
  let ?st = "[(''salesInvoices'', Arr [Obj [(''id'', Str ''INV-1'')]]), (''nextInvoiceNumber'', Num 2)]"
  have a: "lookup ?st ''salesInvoices'' = Arr [Obj [(''id'', Str ''INV-1'')]]" by code_simp
  have j: "''salesInvoices'' \<noteq> ''journalEntries''" by simp
  have c: "lookup ?st ''nextInvoiceNumber'' = Num 2" by code_simp
  have n: "\<forall>c. (''salesInvoices'', c) \<in> set counterOfEntity \<longrightarrow> (\<exists>n. lookup ?st c = Num n)"
  proof (intro allI impI)
    fix c assume "(''salesInvoices'', c) \<in> set counterOfEntity"
    then have "c = ''nextInvoiceNumber''"
      using salesInvoices_counter distinct_counterOfEntity by (metis map_of_is_SomeI option.inject)
    then show "\<exists>n. lookup ?st c = Num n" by (simp add: lookup_def)
  qed
  from add_entity_appends [OF a j n, of exampleEnv "Obj [(''id'', Str ''INV-1'')]"] c
  show ?thesis by auto
qed

subsection \<open>\<^verbatim>\<open>ADD_ENTITY\<close> on journalEntries\<close>

text \<open>
  The rule of lines 832-841 over the rows of \<open>voucherSeries\<close>; the theorem below
  writes the four rows out.
\<close>

lemma journal_counters_table:
  assumes je: "lookup state ''journalEntries'' = Arr xs"
      and ok: "\<forall>x \<in> set xs. \<not> nullish x"
      and vid: "lookup entry ''voucherId'' = Str v"
      and num: "\<forall>row \<in> set voucherSeries. \<exists>n. lookup state (snd (snd row)) = Num n"
  shows "\<exists>s1 s2.
       dataReducer env state (addAction ''journalEntries'' (Obj entry)) = Inr s1
     \<and> dataReducer env s1 (addAction ''journalEntries'' (Obj entry)) = Inr s2
     \<and> lookup s1 ''journalEntries'' = Arr (xs @ [Obj entry])
     \<and> (\<forall>row \<in> set voucherSeries. \<forall>n. lookup state (snd (snd row)) = Num n \<longrightarrow>
          lookup s1 (snd (snd row)) =
            (if voucherMatch env entry row \<and> \<not> hasVoucher v xs then Num (n + 1) else Num n))
     \<and> (\<forall>row \<in> set voucherSeries. lookup s2 (snd (snd row)) = lookup s1 (snd (snd row)))"
proof -
  let ?e = "Obj entry"
  let ?ns = "AList.update ''journalEntries'' (Arr (xs @ [?e])) state"
  have nj: "\<And>row. row \<in> set voucherSeries \<Longrightarrow> snd (snd row) \<noteq> ''journalEntries''"
    using voucher_counters_distinct by blast
  have cd: "\<And>row row'. row \<in> set voucherSeries \<Longrightarrow> row' \<in> set voucherSeries
              \<Longrightarrow> snd (snd row) = snd (snd row') \<Longrightarrow> row = row'"
    using voucher_counters_distinct by (meson distinct_map inj_onD)
  \<comment> \<open>the first add\<close>
  obtain s1 where r1: "dataReducer env state (addAction ''journalEntries'' ?e) = Inr s1"
    and j1: "lookup s1 ''journalEntries'' = Arr (xs @ [?e])"
    and c1: "\<forall>row \<in> set voucherSeries. \<forall>n. lookup state (snd (snd row)) = Num n \<longrightarrow>
          lookup s1 (snd (snd row)) =
            (if voucherMatch env entry row \<and> \<not> hasVoucher v xs then Num (n + 1) else Num n)"
  proof (cases "hasVoucher v xs \<or> find (voucherMatch env entry) voucherSeries = None")
    case True
    then have r: "dataReducer env state (addAction ''journalEntries'' ?e) = Inr ?ns"
      by (auto simp: dataReducer_addAction addEntity_journal [OF je ok vid])
    have nomatch: "\<not> hasVoucher v xs \<Longrightarrow> \<forall>row \<in> set voucherSeries. \<not> voucherMatch env entry row"
      using True by (auto simp: find_None_iff)
    have "\<forall>row \<in> set voucherSeries. \<forall>n. lookup state (snd (snd row)) = Num n \<longrightarrow>
          lookup ?ns (snd (snd row)) =
            (if voucherMatch env entry row \<and> \<not> hasVoucher v xs then Num (n + 1) else Num n)"
      using nomatch nj by (auto simp: lookup_update)
    with r show ?thesis
      using that [of ?ns] by (simp add: lookup_update)
  next
    case False
    then have nh: "\<not> hasVoucher v xs" by simp
    from False obtain row where f: "find (voucherMatch env entry) voucherSeries = Some row"
      by auto
    then have rm: "row \<in> set voucherSeries" and m: "voucherMatch env entry row"
      by (auto simp: find_Some_iff)
    from num rm obtain n where n: "lookup state (snd (snd row)) = Num n" by blast
    let ?s = "AList.update (snd (snd row)) (Num (n + 1)) ?ns"
    have r: "dataReducer env state (addAction ''journalEntries'' ?e) = Inr ?s"
      using nh f by (simp add: dataReducer_addAction addEntity_journal [OF je ok vid]
          bumpCounter_Num [OF n])
    have j: "lookup ?s ''journalEntries'' = Arr (xs @ [?e])"
      using nj [OF rm] by (simp add: lookup_update)
    have "\<forall>row' \<in> set voucherSeries. \<forall>n'. lookup state (snd (snd row')) = Num n' \<longrightarrow>
          lookup ?s (snd (snd row')) =
            (if voucherMatch env entry row' \<and> \<not> hasVoucher v xs then Num (n' + 1) else Num n')"
    proof (intro ballI allI impI)
      fix row' n' assume r': "row' \<in> set voucherSeries" and n': "lookup state (snd (snd row')) = Num n'"
      show "lookup ?s (snd (snd row')) =
            (if voucherMatch env entry row' \<and> \<not> hasVoucher v xs then Num (n' + 1) else Num n')"
      proof (cases "row' = row")
        case True
        with n n' m nh show ?thesis by (simp add: lookup_update)
      next
        case False
        then have "snd (snd row') \<noteq> snd (snd row)" using cd [OF r' rm] by blast
        moreover have "\<not> voucherMatch env entry row'"
          using voucherMatch_unique [OF r' rm _ m] False by blast
        ultimately show ?thesis using n' nj [OF r'] by (simp add: lookup_update)
      qed
    qed
    with r j show ?thesis using that [of ?s] by blast
  qed
  \<comment> \<open>the replay\<close>
  let ?s2 = "AList.update ''journalEntries'' (Arr ((xs @ [?e]) @ [?e])) s1"
  have ok1: "\<forall>x \<in> set (xs @ [?e]). \<not> nullish x"
    using ok by (simp add: nullish_def)
  have seen: "hasVoucher v (xs @ [?e])"
    using vid by (simp add: hasVoucher_def)
  have r2: "dataReducer env s1 (addAction ''journalEntries'' ?e) = Inr ?s2"
    using seen by (simp add: dataReducer_addAction addEntity_journal [OF j1 ok1 vid])
  have c2: "\<forall>row \<in> set voucherSeries. lookup ?s2 (snd (snd row)) = lookup s1 (snd (snd row))"
    using nj by (simp add: lookup_update)
  from r1 r2 j1 c1 c2 show ?thesis by blast
qed

text \<open>
  Claim C8. When \<^verbatim>\<open>ADD_ENTITY\<close> adds a journal entry with voucher id \<open>v\<close>, the
  entry is appended, and each of the four voucher-series counters becomes its old value
  plus 1 if the entry matches its series and no journal entry of the state has the
  voucher id \<open>v\<close>; otherwise the counter keeps its value. The series are:
  nextReceiptVoucherNumber for an entry of type Receipt whose voucher id starts with RV-,
  nextPaymentVoucherNumber for type Payment and PV-, nextExpenseVoucherNumber for type
  Expense and EV-, nextJournalVoucherNumber for type Journal and JV-. Replaying the same
  action changes none of the four counters. The journal entries of the state are an
  array without \<^verbatim>\<open>null\<close> or \<^verbatim>\<open>undefined\<close> elements, the voucher id is a string,
  and the four counters are numbers.
\<close>

theorem journal_voucher_counter:
  assumes je: "lookup state ''journalEntries'' = Arr xs"
      and ok: "\<forall>x \<in> set xs. \<not> nullish x"
      and vid: "lookup entry ''voucherId'' = Str v"
      and nr: "lookup state ''nextReceiptVoucherNumber'' = Num r"
      and np: "lookup state ''nextPaymentVoucherNumber'' = Num p"
      and ne: "lookup state ''nextExpenseVoucherNumber'' = Num e"
      and nj: "lookup state ''nextJournalVoucherNumber'' = Num j"
  shows "\<exists>s1 s2.
       dataReducer env state (addAction ''journalEntries'' (Obj entry)) = Inr s1
     \<and> dataReducer env s1 (addAction ''journalEntries'' (Obj entry)) = Inr s2
     \<and> lookup s1 ''journalEntries'' = Arr (xs @ [Obj entry])
     \<and> lookup s1 ''nextReceiptVoucherNumber'' =
         (if strict_eq (lookup entry ''entryType'') (enumValue env Receipt)
             \<and> take 3 v = ''RV-'' \<and> \<not> hasVoucher v xs
          then Num (r + 1) else Num r)
     \<and> lookup s1 ''nextPaymentVoucherNumber'' =
         (if strict_eq (lookup entry ''entryType'') (enumValue env Payment)
             \<and> take 3 v = ''PV-'' \<and> \<not> hasVoucher v xs
          then Num (p + 1) else Num p)
     \<and> lookup s1 ''nextExpenseVoucherNumber'' =
         (if strict_eq (lookup entry ''entryType'') (enumValue env Expense)
             \<and> take 3 v = ''EV-'' \<and> \<not> hasVoucher v xs
          then Num (e + 1) else Num e)
     \<and> lookup s1 ''nextJournalVoucherNumber'' =
         (if strict_eq (lookup entry ''entryType'') (enumValue env Journal)
             \<and> take 3 v = ''JV-'' \<and> \<not> hasVoucher v xs
          then Num (j + 1) else Num j)
     \<and> lookup s2 ''nextReceiptVoucherNumber'' = lookup s1 ''nextReceiptVoucherNumber''
     \<and> lookup s2 ''nextPaymentVoucherNumber'' = lookup s1 ''nextPaymentVoucherNumber''
     \<and> lookup s2 ''nextExpenseVoucherNumber'' = lookup s1 ''nextExpenseVoucherNumber''
     \<and> lookup s2 ''nextJournalVoucherNumber'' = lookup s1 ''nextJournalVoucherNumber''"
proof -
  have num: "\<forall>row \<in> set voucherSeries. \<exists>n. lookup state (snd (snd row)) = Num n"
    using nr np ne nj by (simp add: voucherSeries_def)
  from journal_counters_table [OF je ok vid num, of env]
  obtain s1 s2 where
      a: "dataReducer env state (addAction ''journalEntries'' (Obj entry)) = Inr s1"
    and b: "dataReducer env s1 (addAction ''journalEntries'' (Obj entry)) = Inr s2"
    and c: "lookup s1 ''journalEntries'' = Arr (xs @ [Obj entry])"
    and d: "\<forall>row \<in> set voucherSeries. \<forall>n. lookup state (snd (snd row)) = Num n \<longrightarrow>
          lookup s1 (snd (snd row)) =
            (if voucherMatch env entry row \<and> \<not> hasVoucher v xs then Num (n + 1) else Num n)"
    and f: "\<forall>row \<in> set voucherSeries. lookup s2 (snd (snd row)) = lookup s1 (snd (snd row))"
    by blast
  have m: "voucherMatch env entry row
      = (strict_eq (lookup entry ''entryType'') (enumValue env (fst row))
         \<and> startsWith v (fst (snd row)))" for row
    by (simp add: voucherMatch_def vid)
  have sw: "startsWith v [a1, a2, a3] = (take 3 v = [a1, a2, a3])" for a1 a2 a3
    by (simp add: startsWith_def numeral_3_eq_3)
  have rows: "(Receipt, ''RV-'', ''nextReceiptVoucherNumber'') \<in> set voucherSeries"
    "(Payment, ''PV-'', ''nextPaymentVoucherNumber'') \<in> set voucherSeries"
    "(Expense, ''EV-'', ''nextExpenseVoucherNumber'') \<in> set voucherSeries"
    "(Journal, ''JV-'', ''nextJournalVoucherNumber'') \<in> set voucherSeries"
    by (simp_all add: voucherSeries_def)
  have one: "lookup s1 c =
         (if strict_eq (lookup entry ''entryType'') (enumValue env t)
             \<and> take 3 v = [a1, a2, a3] \<and> \<not> hasVoucher v xs
          then Num (n + 1) else Num n)"
    if "(t, [a1, a2, a3], c) \<in> set voucherSeries" and "lookup state c = Num n"
    for t a1 a2 a3 c n
  proof -
    from d that(1) have "\<forall>n. lookup state (snd (snd (t, [a1, a2, a3], c))) = Num n \<longrightarrow>
          lookup s1 (snd (snd (t, [a1, a2, a3], c))) =
            (if voucherMatch env entry (t, [a1, a2, a3], c) \<and> \<not> hasVoucher v xs
             then Num (n + 1) else Num n)"
      by (rule bspec)
    with that(2) have "lookup s1 c =
            (if voucherMatch env entry (t, [a1, a2, a3], c) \<and> \<not> hasVoucher v xs
             then Num (n + 1) else Num n)"
      by simp
    then show ?thesis by (simp only: m fst_conv snd_conv sw conj_assoc)
  qed
  have two: "lookup s2 c = lookup s1 c" if "(t, pre, c) \<in> set voucherSeries" for t pre c
    using f that by fastforce
  from a b c one [OF rows(1) nr] one [OF rows(2) np] one [OF rows(3) ne] one [OF rows(4) nj]
    two [OF rows(1)] two [OF rows(2)] two [OF rows(3)] two [OF rows(4)]
  show ?thesis by blast
qed

text \<open>
  From a state whose four counters are 5, 6, 7 and 8: the first expense entry of voucher
  EV-0007, added twice, moves the expense counter to 8 once and no other counter; the
  first journal entry of voucher JV-0008 moves the journal counter to 9; an expense entry
  whose voucher id starts with RV- moves no counter.
\<close>

theorem journal_voucher_counter_witness:
  "(\<exists>s1 s2.
       dataReducer exampleEnv
         [(''journalEntries'', Arr []), (''nextReceiptVoucherNumber'', Num 5),
          (''nextPaymentVoucherNumber'', Num 6), (''nextExpenseVoucherNumber'', Num 7),
          (''nextJournalVoucherNumber'', Num 8)]
         (addAction ''journalEntries''
            (Obj [(''id'', Str ''je-1''), (''voucherId'', Str ''EV-0007''),
                  (''entryType'', Str ''Expense'')])) = Inr s1
     \<and> dataReducer exampleEnv s1
         (addAction ''journalEntries''
            (Obj [(''id'', Str ''je-1''), (''voucherId'', Str ''EV-0007''),
                  (''entryType'', Str ''Expense'')])) = Inr s2
     \<and> map (lookup s1) [''nextReceiptVoucherNumber'', ''nextPaymentVoucherNumber'',
                         ''nextExpenseVoucherNumber'', ''nextJournalVoucherNumber'']
         = [Num 5, Num 6, Num 8, Num 8]
     \<and> map (lookup s2) [''nextReceiptVoucherNumber'', ''nextPaymentVoucherNumber'',
                         ''nextExpenseVoucherNumber'', ''nextJournalVoucherNumber'']
         = [Num 5, Num 6, Num 8, Num 8])
   \<and> (\<exists>s1.
       dataReducer exampleEnv
         [(''journalEntries'', Arr []), (''nextReceiptVoucherNumber'', Num 5),
          (''nextPaymentVoucherNumber'', Num 6), (''nextExpenseVoucherNumber'', Num 7),
          (''nextJournalVoucherNumber'', Num 8)]
         (addAction ''journalEntries''
            (Obj [(''id'', Str ''je-2''), (''voucherId'', Str ''JV-0008''),
                  (''entryType'', Str ''Journal'')])) = Inr s1
     \<and> map (lookup s1) [''nextReceiptVoucherNumber'', ''nextPaymentVoucherNumber'',
                         ''nextExpenseVoucherNumber'', ''nextJournalVoucherNumber'']
         = [Num 5, Num 6, Num 7, Num 9])
   \<and> (\<exists>s1.
       dataReducer exampleEnv
         [(''journalEntries'', Arr []), (''nextReceiptVoucherNumber'', Num 5),
          (''nextPaymentVoucherNumber'', Num 6), (''nextExpenseVoucherNumber'', Num 7),
          (''nextJournalVoucherNumber'', Num 8)]
         (addAction ''journalEntries''
            (Obj [(''id'', Str ''je-3''), (''voucherId'', Str ''RV-0005''),
                  (''entryType'', Str ''Expense'')])) = Inr s1
     \<and> map (lookup s1) [''nextReceiptVoucherNumber'', ''nextPaymentVoucherNumber'',
                         ''nextExpenseVoucherNumber'', ''nextJournalVoucherNumber'']
         = [Num 5, Num 6, Num 7, Num 8])"
proof -
  let ?st = "[(''journalEntries'', Arr []), (''nextReceiptVoucherNumber'', Num 5),
          (''nextPaymentVoucherNumber'', Num 6), (''nextExpenseVoucherNumber'', Num 7),
          (''nextJournalVoucherNumber'', Num 8)]"
  have je: "lookup ?st ''journalEntries'' = Arr []" by code_simp
  have ok: "\<forall>x \<in> set []. \<not> nullish x" by simp
  have nr: "lookup ?st ''nextReceiptVoucherNumber'' = Num 5"
    and np: "lookup ?st ''nextPaymentVoucherNumber'' = Num 6"
    and ne: "lookup ?st ''nextExpenseVoucherNumber'' = Num 7"
    and nj: "lookup ?st ''nextJournalVoucherNumber'' = Num 8"
    by (simp_all add: lookup_def)
  have nh: "\<not> hasVoucher v []" for v by (simp add: hasVoucher_def)
  let ?e1 = "[(''id'', Str ''je-1''), (''voucherId'', Str ''EV-0007''),
                  (''entryType'', Str ''Expense'')]"
  have v1: "lookup ?e1 ''voucherId'' = Str ''EV-0007''"
    and t1: "lookup ?e1 ''entryType'' = Str ''Expense''"
    by (simp_all add: lookup_def)
  from journal_voucher_counter [OF je ok v1 nr np ne nj, of exampleEnv]
  have a: "\<exists>s1 s2.
       dataReducer exampleEnv ?st (addAction ''journalEntries'' (Obj ?e1)) = Inr s1
     \<and> dataReducer exampleEnv s1 (addAction ''journalEntries'' (Obj ?e1)) = Inr s2
     \<and> map (lookup s1) [''nextReceiptVoucherNumber'', ''nextPaymentVoucherNumber'',
                         ''nextExpenseVoucherNumber'', ''nextJournalVoucherNumber'']
         = [Num 5, Num 6, Num 8, Num 8]
     \<and> map (lookup s2) [''nextReceiptVoucherNumber'', ''nextPaymentVoucherNumber'',
                         ''nextExpenseVoucherNumber'', ''nextJournalVoucherNumber'']
         = [Num 5, Num 6, Num 8, Num 8]"
    unfolding t1 by (auto simp: nh exampleEnv_def)
  let ?e2 = "[(''id'', Str ''je-2''), (''voucherId'', Str ''JV-0008''),
                  (''entryType'', Str ''Journal'')]"
  have v2: "lookup ?e2 ''voucherId'' = Str ''JV-0008''"
    and t2: "lookup ?e2 ''entryType'' = Str ''Journal''"
    by (simp_all add: lookup_def)
  from journal_voucher_counter [OF je ok v2 nr np ne nj, of exampleEnv]
  have b: "\<exists>s1.
       dataReducer exampleEnv ?st (addAction ''journalEntries'' (Obj ?e2)) = Inr s1
     \<and> map (lookup s1) [''nextReceiptVoucherNumber'', ''nextPaymentVoucherNumber'',
                         ''nextExpenseVoucherNumber'', ''nextJournalVoucherNumber'']
         = [Num 5, Num 6, Num 7, Num 9]"
    unfolding t2 by (auto simp: nh exampleEnv_def)
  let ?e3 = "[(''id'', Str ''je-3''), (''voucherId'', Str ''RV-0005''),
                  (''entryType'', Str ''Expense'')]"
  have v3: "lookup ?e3 ''voucherId'' = Str ''RV-0005''"
    and t3: "lookup ?e3 ''entryType'' = Str ''Expense''"
    by (simp_all add: lookup_def)
  from journal_voucher_counter [OF je ok v3 nr np ne nj, of exampleEnv]
  have c: "\<exists>s1.
       dataReducer exampleEnv ?st (addAction ''journalEntries'' (Obj ?e3)) = Inr s1
     \<and> map (lookup s1) [''nextReceiptVoucherNumber'', ''nextPaymentVoucherNumber'',
                         ''nextExpenseVoucherNumber'', ''nextJournalVoucherNumber'']
         = [Num 5, Num 6, Num 7, Num 8]"
    unfolding t3 by (auto simp: nh exampleEnv_def)
  from a b c show ?thesis by blast
qed

subsection \<open>Serialization and \<^verbatim>\<open>RESTORE_STATE\<close>\<close>

text \<open>
  Claim C7. Serializing a value with \<open>convertUndefinedToNull\<close> gives the value with
  every \<^verbatim>\<open>undefined\<close> property value replaced by \<^verbatim>\<open>null\<close>, at any depth, and
  nothing else changed; the result has no \<^verbatim>\<open>undefined\<close> property value, and a value
  that has none is returned as it is. Applying \<^verbatim>\<open>RESTORE_STATE\<close> to a payload with
  the shape of a valid aggregate (an object with the property customers) drops no
  top-level key of the default initial state: every such key is a key of the result, its
  value there is neither \<^verbatim>\<open>undefined\<close> nor \<^verbatim>\<open>null\<close>, a key missing or
  \<^verbatim>\<open>null\<close> in the payload has the value of the default initial state, and a key
  with a truthy value in the payload keeps it (items apart, which \<open>processState\<close>
  rebuilds). The productions and items of the payload, where present, are arrays of
  records as TypeScript types them, so that \<open>processState\<close> returns.
\<close>

theorem serialize_and_restore:
  "spec_serialized v (convertUndefinedToNull v)
   \<and> noUndefinedField (convertUndefinedToNull v)
   \<and> (noUndefinedField v \<longrightarrow> convertUndefinedToNull v = v)
   \<and> (validAggregate (Obj ps)
        \<and> falsyOrArrayOf isProduction (lookup ps ''productions'')
        \<and> falsyOrArrayOf isItem (lookup ps ''items'')
      \<longrightarrow> (\<exists>s'. dataReducer env state (mkAction ''RESTORE_STATE'' (Obj ps)) = Inr s'
            \<and> (\<forall>k \<in> set (map fst getInitialState).
                  k \<in> set (map fst s') \<and> \<not> nullish (lookup s' k)
                  \<and> (nullish (lookup ps k) \<longrightarrow> lookup s' k = lookup initialState k)
                  \<and> (truthy (lookup ps k) \<and> k \<noteq> ''items'' \<longrightarrow> lookup s' k = lookup ps k))))"
proof -
  have restore: "\<exists>s'. dataReducer env state (mkAction ''RESTORE_STATE'' (Obj ps)) = Inr s'
            \<and> (\<forall>k \<in> set (map fst getInitialState).
                  k \<in> set (map fst s') \<and> \<not> nullish (lookup s' k)
                  \<and> (nullish (lookup ps k) \<longrightarrow> lookup s' k = lookup initialState k)
                  \<and> (truthy (lookup ps k) \<and> k \<noteq> ''items'' \<longrightarrow> lookup s' k = lookup ps k))"
    if valid: "validAggregate (Obj ps)"
      and prods: "falsyOrArrayOf isProduction (lookup ps ''productions'')"
      and items: "falsyOrArrayOf isItem (lookup ps ''items'')"
  proof -
    let ?ns = "restoredFields ps getInitialState"
    from restoreState_valid [OF valid prods items, of state]
    obtain its where r: "restoreState state (Obj ps) = Inr (AList.update ''items'' (Arr its) ?ns)"
      and e: "\<not> truthy (lookup ps ''items'') \<longrightarrow> its = []"
      by blast
    let ?s = "AList.update ''items'' (Arr its) ?ns"
    have d: "dataReducer env state (mkAction ''RESTORE_STATE'' (Obj ps)) = Inr ?s"
      by (simp add: dataReducer_mkAction r)
    have "k \<in> set (map fst ?s) \<and> \<not> nullish (lookup ?s k)
            \<and> (nullish (lookup ps k) \<longrightarrow> lookup ?s k = lookup initialState k)
            \<and> (truthy (lookup ps k) \<and> k \<noteq> ''items'' \<longrightarrow> lookup ?s k = lookup ps k)"
      if k: "k \<in> set (map fst getInitialState)" for k
    proof -
      from default_key_cases [OF k] have "k \<in> set (map fst ?ns)"
        by (auto simp: keys_restoredFields)
      then have kin: "k \<in> set (map fst ?s)"
        by (simp add: update_keys)
      show ?thesis
      proof (cases "k = ''items''")
        case True
        have "nullish (lookup ps ''items'') \<Longrightarrow> Arr its = lookup initialState ''items''"
          using e default_collections by (auto simp: initialState_eq dest: nullish_not_truthy)
        with True kin show ?thesis by (simp add: lookup_update nullish_def)
      next
        case False
        with kin restored_default_key [OF k, of ps] show ?thesis
          by (simp add: lookup_update initialState_eq)
      qed
    qed
    with d show ?thesis by blast
  qed
  show ?thesis
    using convert_serialized [of v] convert_noUndefinedField [of v] convert_clean [of v] restore
    by blast
qed

text \<open>
  A state whose supplier list and one phone number are \<^verbatim>\<open>undefined\<close>, serialized
  and restored.
\<close>

theorem serialize_and_restore_witness:
  "convertUndefinedToNull
     (Obj [(''customers'', Arr [Obj [(''id'', Str ''C1''), (''phone'', Undefined)]]),
           (''suppliers'', Undefined)])
   = Obj [(''customers'', Arr [Obj [(''id'', Str ''C1''), (''phone'', Null)]]),
          (''suppliers'', Null)]
   \<and> (\<exists>s'. dataReducer exampleEnv []
          (mkAction ''RESTORE_STATE''
             (Obj [(''customers'', Arr [Obj [(''id'', Str ''C1''), (''phone'', Null)]]),
                   (''suppliers'', Null)])) = Inr s'
        \<and> lookup s' ''customers'' = Arr [Obj [(''id'', Str ''C1''), (''phone'', Null)]]
        \<and> lookup s' ''suppliers'' = Arr []
        \<and> lookup s' ''nextInvoiceNumber'' = Num 1)"
proof -
  let ?v = "Obj [(''customers'', Arr [Obj [(''id'', Str ''C1''), (''phone'', Undefined)]]),
           (''suppliers'', Undefined)]"
  let ?ps = "[(''customers'', Arr [Obj [(''id'', Str ''C1''), (''phone'', Null)]]),
                   (''suppliers'', Null)]"
  have c: "convertUndefinedToNull ?v = Obj ?ps" by simp
  have valid: "validAggregate (Obj ?ps)" by (simp add: validAggregate_def)
  have prods: "falsyOrArrayOf isProduction (lookup ?ps ''productions'')" by (simp add: lookup_def)
  have items: "falsyOrArrayOf isItem (lookup ?ps ''items'')" by (simp add: lookup_def)
  have keys: "''customers'' \<in> set (map fst getInitialState)
      \<and> ''suppliers'' \<in> set (map fst getInitialState)
      \<and> ''nextInvoiceNumber'' \<in> set (map fst getInitialState)"
    by (simp add: getInitialState_def)
  have pl: "truthy (lookup ?ps ''customers'') \<and> nullish (lookup ?ps ''suppliers'')
      \<and> nullish (lookup ?ps ''nextInvoiceNumber'')
      \<and> lookup ?ps ''customers'' = Arr [Obj [(''id'', Str ''C1''), (''phone'', Null)]]"
    by (simp add: lookup_def nullish_def)
  have dl: "lookup initialState ''suppliers'' = Arr [] \<and> lookup initialState ''nextInvoiceNumber'' = Num 1"
    by code_simp
  from serialize_and_restore [of ?v ?ps exampleEnv "[]"] valid prods items
  obtain s' where r: "dataReducer exampleEnv [] (mkAction ''RESTORE_STATE'' (Obj ?ps)) = Inr s'"
    and a: "\<forall>k \<in> set (map fst getInitialState).
                  k \<in> set (map fst s') \<and> \<not> nullish (lookup s' k)
                  \<and> (nullish (lookup ?ps k) \<longrightarrow> lookup s' k = lookup initialState k)
                  \<and> (truthy (lookup ?ps k) \<and> k \<noteq> ''items'' \<longrightarrow> lookup s' k = lookup ?ps k)"
    by blast
  from a keys have c1: "truthy (lookup ?ps ''customers'') \<and> ''customers'' \<noteq> ''items''
      \<longrightarrow> lookup s' ''customers'' = lookup ?ps ''customers''"
    by blast
  from a keys have c2: "nullish (lookup ?ps ''suppliers'')
      \<longrightarrow> lookup s' ''suppliers'' = lookup initialState ''suppliers''"
    by blast
  from a keys have c3: "nullish (lookup ?ps ''nextInvoiceNumber'')
      \<longrightarrow> lookup s' ''nextInvoiceNumber'' = lookup initialState ''nextInvoiceNumber''"
    by blast
  have ne: "''customers'' \<noteq> ''items''" by simp
  from c1 c2 c3 pl dl ne
  have "lookup s' ''customers'' = Arr [Obj [(''id'', Str ''C1''), (''phone'', Null)]]
        \<and> lookup s' ''suppliers'' = Arr [] \<and> lookup s' ''nextInvoiceNumber'' = Num 1"
    by auto
  with r c show ?thesis by blast
qed

subsection \<open>Totality of the reducer\<close>


subsection \<open>Echo suppression in the synchronization layer\<close>




end
